theory Spec2Isabelle
  imports Main "HOL-Library.Word"
begin

unbundle bit_operations_syntax

section \<open>Common C conventions\<close>

text \<open>
  Error numbers are the kernel's; functions that return a negative errno return
  \<open>- E\<close> as an \<open>int\<close>.
\<close>

definition ENOENT :: int where "ENOENT = 2"
definition EAGAIN :: int where "EAGAIN = 11"
definition ENOMEM :: int where "ENOMEM = 12"
definition EACCES :: int where "EACCES = 13"
definition EISDIR :: int where "EISDIR = 21"
definition EINVAL :: int where "EINVAL = 22"
definition EMFILE :: int where "EMFILE = 24"

text \<open>
  Kernel allocations can fail. The outcomes of the allocation requests still to come
  are an explicit list (\<open>True\<close>: the request succeeds); a request made when the list
  is exhausted succeeds.
\<close>

type_synonym kmem = "bool list"

fun kalloc :: "kmem \<Rightarrow> bool \<times> kmem" where
  "kalloc [] = (True, [])"
| "kalloc (b # bs) = (b, bs)"

definition allocs_succeed :: "kmem \<Rightarrow> bool" where
  "allocs_succeed mem = list_all (\<lambda>b. b) mem"

section \<open>Share and access resolver\<close>

text \<open>
  A C string is the list of its bytes before the terminating NUL; a \<open>char *\<close> that
  may be \<open>NULL\<close> is a \<open>string option\<close>.
\<close>

text \<open>\<open>strsep(&s, ct)\<close>: the token up to the first delimiter, and what \<open>s\<close> becomes.\<close>

fun strsep :: "string \<Rightarrow> string \<Rightarrow> string \<times> string option" where
  "strsep [] ct = ([], None)"
| "strsep (c # s) ct =
     (if c \<in> set ct then ([], Some s)
      else (case strsep s ct of (tok, rest) \<Rightarrow> (c # tok, rest)))"

lemma strsep_rest_shorter: "strsep s ct = (tok, Some r) \<Longrightarrow> length r < length s"
  by (induction s arbitrary: tok) (auto split: if_splits prod.splits)

text \<open>The delimiters of \<open>chktkn\<close>: tab, comma, space.\<close>

definition chktkn_delims :: string where
  "chktkn_delims = [CHR 0x09, CHR '','', CHR '' '']"

text \<open>The \<open>while ((token = strsep(&dup, ...)) != NULL)\<close> loop of \<open>chktkn\<close>.\<close>

function chktkn_loop :: "string \<Rightarrow> string \<Rightarrow> int" where
  "chktkn_loop dup str2 =
     (case strsep dup chktkn_delims of
        (token, rest) \<Rightarrow>
          if token = str2 then 1
          else (case rest of None \<Rightarrow> - ENOENT | Some dup' \<Rightarrow> chktkn_loop dup' str2))"
  by pat_completeness auto
termination
  by (relation "measure (\<lambda>(dup, str2). length dup)")
     (auto dest: strsep_rest_shorter [OF sym])

declare chktkn_loop.simps [simp del]

definition chktkn :: "string option \<Rightarrow> string \<Rightarrow> kmem \<Rightarrow> int \<times> kmem" where
  "chktkn userslist str2 mem =
     (case userslist of
        Some ul \<Rightarrow>
          (case kalloc mem of
             (False, mem') \<Rightarrow> (- ENOMEM, mem')
           | (True, mem') \<Rightarrow> (chktkn_loop ul str2, mem'))
      | None \<Rightarrow> (0, mem))"

record share_config =
  allow_hosts :: "string option"
  deny_hosts :: "string option"
  valid_users :: "string option"
  invalid_users :: "string option"
  read_list :: "string option"
  write_list :: "string option"
  guestok :: bool

record cifsd_share =
  path :: "string option"
  writeable :: nat
  config :: share_config

definition validate_host :: "string \<Rightarrow> cifsd_share \<Rightarrow> kmem \<Rightarrow> int \<times> kmem" where
  "validate_host cip share mem =
     (let alist = allow_hosts (config share);
          dlist = deny_hosts (config share);
          asz = (case alist of Some a \<Rightarrow> length a | None \<Rightarrow> 0);
          dsz = (case dlist of Some d \<Rightarrow> length d | None \<Rightarrow> 0)
      in if asz = 0 \<and> dsz = 0 then (1, mem)
         else
           (case chktkn alist cip mem of
              (allow, mem1) \<Rightarrow>
                if allow = - ENOENT then (- EACCES, mem1)
                else if allow < 0 then (allow, mem1)
                else if allow > 0 then (1, mem1)
                else
                  (case chktkn dlist cip mem1 of
                     (deny, mem2) \<Rightarrow>
                       if deny < 0 then (- ENOMEM, mem2)
                       else if asz = 0 \<and> deny \<noteq> 0 then (- EACCES, mem2)
                       else (1, mem2))))"

text \<open>
  \<open>validate_usr\<close> writes the session's write permission through \<open>can_write\<close>; the
  model takes the flag's value on entry and returns the value on exit.
\<close>

definition validate_usr ::
  "string \<Rightarrow> cifsd_share \<Rightarrow> bool \<Rightarrow> kmem \<Rightarrow> int \<times> bool \<times> kmem" where
  "validate_usr name share can_write mem =
     (let vlist = valid_users (config share);
          ilist = invalid_users (config share);
          wlist = write_list (config share);
          rlist = read_list (config share)
      in if path share = None then (1, can_write, mem)
         else if guestok (config share) then (1, can_write, mem)
         else
           (case chktkn ilist name mem of
              (ret, mem1) \<Rightarrow>
                if ret = - ENOMEM then (- ENOMEM, can_write, mem1)
                else if ret > 0 then (- EACCES, can_write, mem1)
                else
                  (let cw0 = (writeable share = 1) in
                   case chktkn rlist name mem1 of
                     (ret2, mem2) \<Rightarrow>
                       (let cw1 = (if ret2 > 0 then False else cw0) in
                        case chktkn wlist name mem2 of
                          (ret3, mem3) \<Rightarrow>
                            (let cw2 = (if ret3 > 0 then True else cw1) in
                             if vlist = None then (1, cw2, mem3)
                             else (case chktkn vlist name mem3 of
                                     (ret4, mem4) \<Rightarrow> (ret4, cw2, mem4)))))))"

text \<open>
  Membership in a configured list, stated independently of the scanning loop: the list
  is cut at every tab, comma and space, and the name has to equal one of the pieces.
\<close>

function tokens :: "string \<Rightarrow> string list" where
  "tokens s =
     (case strsep s chktkn_delims of
        (tok, None) \<Rightarrow> [tok]
      | (tok, Some r) \<Rightarrow> tok # tokens r)"
  by pat_completeness auto
termination
  by (relation "measure length") (auto dest: strsep_rest_shorter [OF sym])

declare tokens.simps [simp del]

definition user_in :: "string option \<Rightarrow> string \<Rightarrow> bool" where
  "user_in l n = (case l of None \<Rightarrow> False | Some s \<Rightarrow> n \<in> set (tokens s))"

text \<open>Example shares.\<close>

definition share_deny_only :: cifsd_share where
  "share_deny_only =
     \<lparr>path = Some ''/srv/data'', writeable = 1,
      config = \<lparr>allow_hosts = None, deny_hosts = Some ''10.0.0.1'',
        valid_users = None, invalid_users = None, read_list = None,
        write_list = None, guestok = False\<rparr>\<rparr>"

definition share_deny_only_empty_allow :: cifsd_share where
  "share_deny_only_empty_allow =
     share_deny_only\<lparr>config := (config share_deny_only)\<lparr>allow_hosts := Some []\<rparr>\<rparr>"

definition share_ipc :: cifsd_share where
  "share_ipc =
     \<lparr>path = None, writeable = 0,
      config = \<lparr>allow_hosts = None, deny_hosts = None,
        valid_users = None, invalid_users = Some ''bob'', read_list = None,
        write_list = None, guestok = False\<rparr>\<rparr>"

definition share_lists :: cifsd_share where
  "share_lists =
     \<lparr>path = Some ''/srv/data'', writeable = 0,
      config = \<lparr>allow_hosts = None, deny_hosts = None,
        valid_users = Some ''alice bob'', invalid_users = Some ''mallory'',
        read_list = Some ''bob,carol'', write_list = Some ''bob'',
        guestok = False\<rparr>\<rparr>"

section \<open>File-id table (fh.c)\<close>

text \<open>
  The table's constants are declared in a header that is not part of the sources at
  hand; they are parameters of the model. \<open>sizeof_ptr\<close> is
  \<open>sizeof(struct cifsd_file *)\<close>.
\<close>

record fid_consts =
  CIFSD_NR_OPEN_DEFAULT :: nat
  CIFSD_BITMAP_SIZE :: nat
  CIFSD_START_FID :: nat
  sizeof_ptr :: nat

datatype fp_state = FP_NEW | FP_READY | FP_FREEING

text \<open>
  The fields of \<open>struct cifsd_file\<close> that the modelled functions read or write.
  \<open>filp\<close> is the identity of the host-level open file (\<open>struct file *\<close>).
\<close>

record cifsd_file =
  filp :: nat
  tid :: nat
  f_state :: fp_state
  f_count :: int
  is_stream :: bool
  stream_name :: string
  f_mfp :: "nat option"

text \<open>What \<open>kmem_cache_zalloc\<close> hands out: every field zero.\<close>

definition zeroed_file :: cifsd_file where
  "zeroed_file =
     \<lparr>filp = 0, tid = 0, f_state = FP_NEW, f_count = 0, is_stream = False,
      stream_name = [], f_mfp = None\<rparr>"

text \<open>
  \<open>struct fidtable\<close>. The two arrays are memory indexed from 0. Every slot of
  \<open>fileid\<close> exclusively owns the object \<open>insert_id_in_fidtable\<close> allocated for it, so
  a slot holds the object itself and a \<open>struct cifsd_file *\<close> read from a slot is
  that object. \<open>max_fids\<close> is never 0 in a table the code builds (a table starts with
  \<open>CIFSD_NR_OPEN_DEFAULT\<close> entries and only grows), and \<open>max_fids - 1\<close> is written
  with natural-number subtraction.
\<close>

record fidtable =
  max_fids :: nat
  fileid :: "nat \<Rightarrow> cifsd_file option"
  start_pos :: nat
  cifsd_bitmap :: "nat \<Rightarrow> bool"

text \<open>
  Modelled from the spec: the bitmap primitives \<open>cifsd_find_next_zero_bit\<close>,
  \<open>cifsd_set_bit\<close> and \<open>cifsd_clear_bit\<close> are macros of a header outside the sources
  at hand. The scan returns the first index in \<open>[offset, size)\<close> whose bit is zero, and
  \<open>size\<close> when there is none.
\<close>

definition cifsd_find_next_zero_bit :: "(nat \<Rightarrow> bool) \<Rightarrow> nat \<Rightarrow> nat \<Rightarrow> nat" where
  "cifsd_find_next_zero_bit bitmap sz offset =
     (case List.find (\<lambda>i. \<not> bitmap i) [offset..<sz] of
        None \<Rightarrow> sz
      | Some i \<Rightarrow> i)"

definition cifsd_set_bit :: "nat \<Rightarrow> (nat \<Rightarrow> bool) \<Rightarrow> (nat \<Rightarrow> bool)" where
  "cifsd_set_bit i bitmap = bitmap(i := True)"

definition cifsd_clear_bit :: "nat \<Rightarrow> (nat \<Rightarrow> bool) \<Rightarrow> (nat \<Rightarrow> bool)" where
  "cifsd_clear_bit i bitmap = bitmap(i := False)"

text \<open>The kernel's \<open>roundup_pow_of_two\<close>: the least power of two that is at least \<open>n\<close>.\<close>

function pow_of_two_from :: "nat \<Rightarrow> nat \<Rightarrow> nat" where
  "pow_of_two_from k n = (if k = 0 \<or> n \<le> k then k else pow_of_two_from (2 * k) n)"
  by pat_completeness auto
termination
  by (relation "measure (\<lambda>(k, n). n - k)") auto

declare pow_of_two_from.simps [simp del]

definition roundup_pow_of_two :: "nat \<Rightarrow> nat" where
  "roundup_pow_of_two n = pow_of_two_from 1 n"

text \<open>
  \<open>alloc_fidtable\<close>: three allocations, each of which may fail; the arrays come back
  zeroed. \<open>start_pos\<close> is not initialised by the function (both callers assign it
  before it is read); the model has 0 there. The bitmap has \<open>num / 8\<close> bytes.
\<close>

definition alloc_fidtable :: "nat \<Rightarrow> kmem \<Rightarrow> fidtable option \<times> kmem" where
  "alloc_fidtable num mem =
     (case kalloc mem of
        (False, mem1) \<Rightarrow> (None, mem1)
      | (True, mem1) \<Rightarrow>
          (case kalloc mem1 of
             (False, mem2) \<Rightarrow> (None, mem2)
           | (True, mem2) \<Rightarrow>
               (case kalloc mem2 of
                  (False, mem3) \<Rightarrow> (None, mem3)
                | (True, mem3) \<Rightarrow>
                    (Some \<lparr>max_fids = num, fileid = (\<lambda>i. None), start_pos = 0,
                           cifsd_bitmap = (\<lambda>i. False)\<rparr>, mem3))))"

text \<open>
  \<open>copy_fidtable\<close>: the old slots and the old bitmap bytes are copied, the rest of
  the new arrays is cleared (\<open>memset\<close> over \<open>(new - old) / 8\<close> bitmap bytes).
\<close>

definition copy_fidtable :: "fidtable \<Rightarrow> fidtable \<Rightarrow> fidtable" where
  "copy_fidtable nftab oftab =
     (let cpy = 8 * (max_fids oftab div 8);
          st = 8 * ((max_fids nftab - max_fids oftab) div 8)
      in nftab
           \<lparr>fileid := (\<lambda>i. if i < max_fids oftab then fileid oftab i
                            else if i < max_fids nftab then None
                            else fileid nftab i),
            cifsd_bitmap := (\<lambda>i. if i < cpy then cifsd_bitmap oftab i
                                  else if i < cpy + st then False
                                  else cifsd_bitmap nftab i)\<rparr>)"

text \<open>\<open>grow_fidtable\<close> returns 1 on success and a negative errno otherwise.\<close>

definition grow_fidtable ::
  "fid_consts \<Rightarrow> fidtable \<Rightarrow> nat \<Rightarrow> kmem \<Rightarrow> int \<times> fidtable \<times> kmem" where
  "grow_fidtable K cur_ftab num0 mem =
     (let old_num = num0;
          unit = 1024 div sizeof_ptr K;
          num = roundup_pow_of_two (num0 div unit + 1) * unit
      in if num \<ge> CIFSD_BITMAP_SIZE K + 1 then (- EMFILE, cur_ftab, mem)
         else
           (case alloc_fidtable num mem of
              (None, mem') \<Rightarrow> (- ENOMEM, cur_ftab, mem')
            | (Some new_ftab, mem') \<Rightarrow>
                if max_fids new_ftab \<le> old_num then (- EMFILE, cur_ftab, mem')
                else if num \<ge> max_fids cur_ftab
                then (1, (copy_fidtable new_ftab cur_ftab)
                           \<lparr>start_pos := start_pos cur_ftab\<rparr>, mem')
                else (1, cur_ftab, mem')))"

lemma grow_fidtable_grows:
  assumes "grow_fidtable K ft num mem = (1, ft', mem')" and "max_fids ft \<le> num"
  shows "max_fids ft < max_fids ft'" and "max_fids ft' \<le> CIFSD_BITMAP_SIZE K"
  using assms
  by (auto simp: grow_fidtable_def Let_def alloc_fidtable_def copy_fidtable_def
        EMFILE_def ENOMEM_def split: if_splits prod.splits option.splits bool.splits)

text \<open>
  \<open>cifsd_get_unused_id\<close>: the \<open>repeat:\<close> loop. The result is the id, or a negative
  errno.
\<close>

function cifsd_get_unused_id ::
  "fid_consts \<Rightarrow> fidtable \<Rightarrow> kmem \<Rightarrow> int \<times> fidtable \<times> kmem" where
  "cifsd_get_unused_id K fidtable mem =
     (let id = cifsd_find_next_zero_bit (cifsd_bitmap fidtable) (max_fids fidtable)
                 (start_pos fidtable)
      in if id > max_fids fidtable - 1
         then (case grow_fidtable K fidtable id mem of
                 (err, fidtable', mem') \<Rightarrow>
                   if err = 1 then cifsd_get_unused_id K fidtable' mem'
                   else (err, fidtable', mem'))
         else (int id,
               fidtable\<lparr>cifsd_bitmap := cifsd_set_bit id (cifsd_bitmap fidtable),
                         start_pos := id + 1\<rparr>,
               mem))"
  by pat_completeness auto
termination
proof (relation "measure (\<lambda>(K, ft, mem). CIFSD_BITMAP_SIZE K + 1 - max_fids ft)", goal_cases)
  case 1
  show ?case by simp
next
  case (2 K fidtable mem id x y z w)
  then have g: "grow_fidtable K fidtable id mem = (1, z, w)" and big: "max_fids fidtable \<le> id"
    by auto
  from grow_fidtable_grows [OF g big] show ?case by simp
qed

declare cifsd_get_unused_id.simps [simp del]

text \<open>
  \<open>cifsd_close_id\<close>: \<open>id\<close> is an \<open>int\<close> compared with the unsigned \<open>max_fids - 1\<close>, so
  a negative \<open>id\<close> compares as a huge value and is refused as well.
\<close>

definition cifsd_close_id :: "fidtable \<Rightarrow> int \<Rightarrow> int \<times> fidtable" where
  "cifsd_close_id ftab fid =
     (if fid < 0 \<or> nat fid \<ge> max_fids ftab - 1 then (- EINVAL, ftab)
      else (0, ftab\<lparr>cifsd_bitmap := cifsd_clear_bit (nat fid) (cifsd_bitmap ftab),
                    start_pos := (if nat fid < start_pos ftab then nat fid
                                  else start_pos ftab)\<rparr>))"

definition init_fidtable :: "fid_consts \<Rightarrow> kmem \<Rightarrow> int \<times> fidtable option \<times> kmem" where
  "init_fidtable K mem =
     (case alloc_fidtable (CIFSD_NR_OPEN_DEFAULT K) mem of
        (None, mem') \<Rightarrow> (- ENOMEM, None, mem')
      | (Some ftab, mem') \<Rightarrow>
          (0, Some (ftab\<lparr>max_fids := CIFSD_NR_OPEN_DEFAULT K, start_pos := 1\<rparr>), mem'))"

definition fp_get :: "cifsd_file \<Rightarrow> cifsd_file" where
  "fp_get fp = fp\<lparr>f_count := f_count fp + 1\<rparr>"

definition fp_put :: "cifsd_file \<Rightarrow> cifsd_file" where
  "fp_put fp = fp\<lparr>f_count := f_count fp - 1\<rparr>"

text \<open>
  A \<open>BUG_ON\<close> that fires stops the kernel thread, and a copy that leaves its buffer
  corrupts memory: each is an outcome of its own.
\<close>

datatype kernel_bug = BUG | OUT_OF_BOUNDS

text \<open>
  \<open>insert_id_in_fidtable\<close>: \<open>Inr None\<close> is the \<open>NULL\<close> returned when the object cannot
  be allocated, \<open>Inr (Some fp)\<close> the object now in slot \<open>id\<close>.
\<close>

definition insert_id_in_fidtable ::
  "fidtable \<Rightarrow> nat \<Rightarrow> nat \<Rightarrow> nat \<Rightarrow> kmem
     \<Rightarrow> kernel_bug + (cifsd_file option \<times> fidtable \<times> kmem)" where
  "insert_id_in_fidtable ftab tree_id fid filp' mem =
     (case kalloc mem of
        (False, mem') \<Rightarrow> Inr (None, ftab, mem')
      | (True, mem') \<Rightarrow>
          (let fp = zeroed_file\<lparr>filp := filp', tid := tree_id, f_state := FP_NEW\<rparr>
           in if fileid ftab fid \<noteq> None then Inl BUG
              else Inr (Some fp, ftab\<lparr>fileid := (fileid ftab)(fid := Some fp)\<rparr>, mem')))"

text \<open>
  \<open>get_id_from_fidtable\<close>: the object found (its reference count already
  incremented) or \<open>NULL\<close>, and the table after the call.
\<close>

definition get_id_from_fidtable ::
  "fid_consts \<Rightarrow> fidtable \<Rightarrow> nat \<Rightarrow> cifsd_file option \<times> fidtable" where
  "get_id_from_fidtable K ftab fid =
     (if fid < CIFSD_START_FID K \<or> fid > max_fids ftab - 1 then (None, ftab)
      else
        (case fileid ftab fid of
           None \<Rightarrow> (None, ftab)
         | Some file \<Rightarrow>
             if f_state file = FP_FREEING then (None, ftab)
             else (Some (fp_get file),
                   ftab\<lparr>fileid := (fileid ftab)(fid := Some (fp_get file))\<rparr>)))"

text \<open>
  \<open>delete_id_from_fidtable\<close>. After its own reference is dropped the function waits
  until every other holder has dropped theirs; \<open>others_release\<close> says whether that
  happens before the timeout (if not, \<open>wait_on_freeing_fp\<close> hits \<open>BUG()\<close>). The object
  is freed at the end, so only the table remains.
\<close>

definition delete_id_from_fidtable :: "fidtable \<Rightarrow> nat \<Rightarrow> bool \<Rightarrow> kernel_bug + fidtable" where
  "delete_id_from_fidtable ftab fid others_release =
     (case fileid ftab fid of
        None \<Rightarrow> Inl BUG
      | Some fp0 \<Rightarrow>
          (let ftab' = ftab\<lparr>fileid := (fileid ftab)(fid := None)\<rparr>;
               fp = fp_put (fp0\<lparr>f_mfp := None\<rparr>)
           in if f_count fp \<noteq> 0 \<and> \<not> others_release then Inl BUG
              else Inr ftab'))"

text \<open>
  Example: the constants of a 64-bit build, the table \<open>init_fidtable\<close> builds, and
  the table in which the ids 1 to 62 are in use.
\<close>

definition consts64 :: fid_consts where
  "consts64 =
     \<lparr>CIFSD_NR_OPEN_DEFAULT = 64, CIFSD_BITMAP_SIZE = 65535, CIFSD_START_FID = 1,
      sizeof_ptr = 8\<rparr>"

definition fresh_table :: fidtable where
  "fresh_table =
     \<lparr>max_fids = 64, fileid = (\<lambda>i. None), start_pos = 1, cifsd_bitmap = (\<lambda>i. False)\<rparr>"

definition nearly_full_table :: fidtable where
  "nearly_full_table =
     \<lparr>max_fids = 64, fileid = (\<lambda>i. None), start_pos = 63,
      cifsd_bitmap = (\<lambda>i. 1 \<le> i \<and> i < 63)\<rparr>"

text \<open>The nearly full table after one more allocation.\<close>

definition table_after_top_alloc :: fidtable where
  "table_after_top_alloc = fst (snd (cifsd_get_unused_id consts64 nearly_full_table []))"


subsection \<open>Runs of the table\<close>

text \<open>
  What is done to a table between two lookups: an id is allocated; an object is bound
  to a slot; an id is looked up; a holder drops the reference it got from a lookup
  (\<open>fp_put\<close>), or marks the object \<open>FP_FREEING\<close> as \<open>close_id\<close> does, both through the
  slot that owns the object; a slot is unbound; an id is released. A slot beyond the
  table is outside the array, and an empty slot has no object to work on.
\<close>

datatype fid_op =
    OP_ALLOC
  | OP_INSERT nat nat nat
  | OP_LOOKUP nat
  | OP_FP_PUT nat
  | OP_FREEING nat
  | OP_DELETE nat bool
  | OP_CLOSE int

fun fid_step :: "fid_consts \<Rightarrow> fid_op \<Rightarrow> fidtable \<times> kmem \<Rightarrow> kernel_bug + fidtable \<times> kmem" where
  "fid_step K OP_ALLOC (ft, mem) =
     (case cifsd_get_unused_id K ft mem of (r, ft', mem') \<Rightarrow> Inr (ft', mem'))"
| "fid_step K (OP_INSERT tree_id j fl) (ft, mem) =
     (if max_fids ft \<le> j then Inl OUT_OF_BOUNDS
      else (case insert_id_in_fidtable ft tree_id j fl mem of
              Inl b \<Rightarrow> Inl b
            | Inr (r, ft', mem') \<Rightarrow> Inr (ft', mem')))"
| "fid_step K (OP_LOOKUP j) (ft, mem) = Inr (snd (get_id_from_fidtable K ft j), mem)"
| "fid_step K (OP_FP_PUT j) (ft, mem) =
     (if max_fids ft \<le> j then Inl OUT_OF_BOUNDS
      else (case fileid ft j of
              None \<Rightarrow> Inl BUG
            | Some f \<Rightarrow> Inr (ft\<lparr>fileid := (fileid ft)(j := Some (fp_put f))\<rparr>, mem)))"
| "fid_step K (OP_FREEING j) (ft, mem) =
     (if max_fids ft \<le> j then Inl OUT_OF_BOUNDS
      else (case fileid ft j of
              None \<Rightarrow> Inl BUG
            | Some f \<Rightarrow>
                Inr (ft\<lparr>fileid := (fileid ft)(j := Some (f\<lparr>f_state := FP_FREEING\<rparr>))\<rparr>, mem)))"
| "fid_step K (OP_DELETE j others_release) (ft, mem) =
     (if max_fids ft \<le> j then Inl OUT_OF_BOUNDS
      else (case delete_id_from_fidtable ft j others_release of
              Inl b \<Rightarrow> Inl b
            | Inr ft' \<Rightarrow> Inr (ft', mem)))"
| "fid_step K (OP_CLOSE i) (ft, mem) = Inr (snd (cifsd_close_id ft i), mem)"

fun fid_run ::
  "fid_consts \<Rightarrow> fid_op list \<Rightarrow> fidtable \<times> kmem \<Rightarrow> kernel_bug + fidtable \<times> kmem" where
  "fid_run K [] s = Inr s"
| "fid_run K (op # ops) s =
     (case fid_step K op s of Inl b \<Rightarrow> Inl b | Inr s' \<Rightarrow> fid_run K ops s')"

text \<open>The steps that unbind, bind, and mark the object of a given id.\<close>

fun unbinds :: "nat \<Rightarrow> fid_op \<Rightarrow> bool" where
  "unbinds fid (OP_DELETE j others_release) = (j = fid)"
| "unbinds fid other = False"

fun binds :: "nat \<Rightarrow> fid_op \<Rightarrow> bool" where
  "binds fid (OP_INSERT tree_id j fl) = (j = fid)"
| "binds fid other = False"

fun marks_freeing :: "nat \<Rightarrow> fid_op \<Rightarrow> bool" where
  "marks_freeing fid (OP_FREEING j) = (j = fid)"
| "marks_freeing fid other = False"

definition stays_bound :: "nat \<Rightarrow> fid_op list \<Rightarrow> bool" where
  "stays_bound fid ops = list_all (\<lambda>op. \<not> unbinds fid op) ops"

definition stays_unbound :: "nat \<Rightarrow> fid_op list \<Rightarrow> bool" where
  "stays_unbound fid ops = list_all (\<lambda>op. \<not> binds fid op) ops"

text \<open>
  Example: in the table with the ids 1 to 62 in use, the next id, 63, bound to the
  open file 42 of tree 5; that table after another allocation, which makes it grow,
  and a lookup of 63; and the same with the object of 63 marked \<open>FP_FREEING\<close>.
\<close>

definition file_42 :: cifsd_file where
  "file_42 = zeroed_file\<lparr>filp := 42, tid := 5, f_state := FP_NEW\<rparr>"

definition table_63_bound :: fidtable where
  "table_63_bound =
     nearly_full_table
       \<lparr>cifsd_bitmap := cifsd_set_bit 63 (cifsd_bitmap nearly_full_table), start_pos := 64,
        fileid := (fileid nearly_full_table)(63 := Some file_42)\<rparr>"

definition table_128 :: "cifsd_file \<Rightarrow> fidtable" where
  "table_128 f =
     \<lparr>max_fids = 128, fileid = (\<lambda>i. if i = 63 then Some f else None), start_pos = 65,
      cifsd_bitmap = (\<lambda>i. 1 \<le> i \<and> i < 65)\<rparr>"
section \<open>VFS adapter: read, write, byte-range lock check\<close>

text \<open>
  \<open>loff_t\<close> is a signed and \<open>size_t\<close> an unsigned 64-bit integer; both are modelled
  as \<open>int\<close> and \<open>nat\<close> with the conversions written out.
\<close>

definition s64 :: "int \<Rightarrow> int" where
  "s64 x = (x + 2 ^ 63) mod 2 ^ 64 - 2 ^ 63"

definition u64 :: "int \<Rightarrow> nat" where
  "u64 x = nat (x mod 2 ^ 64)"

datatype lock_type = F_RDLCK | F_WRLCK | F_UNLCK

datatype rw = READ | WRITE

text \<open>A POSIX lock of the host: \<open>fl_file\<close> is the open file (\<open>struct file *\<close>) holding it.\<close>

record file_lock =
  fl_start :: int
  fl_end :: int
  fl_type :: lock_type
  fl_file :: nat

text \<open>
  The host side, as far as the adapter looks at it: an inode with its type, its POSIX
  lock context (\<open>i_flctx\<close>, possibly \<open>NULL\<close>) and its extended attributes; an open file
  with its inode and position.
\<close>

record inode =
  i_isdir :: bool
  i_flctx :: "file_lock list option"
  i_xattrs :: "string \<Rightarrow> 8 word list option"

record host_file =
  f_inode :: nat
  f_pos :: int

record host =
  files :: "nat \<Rightarrow> host_file"
  inodes :: "nat \<Rightarrow> inode"

definition file_inode :: "host \<Rightarrow> nat \<Rightarrow> inode" where
  "file_inode h fl = inodes h (f_inode (files h fl))"

text \<open>The \<open>list_for_each_entry\<close> loop of \<open>check_lock_range\<close>.\<close>

fun check_lock_loop :: "file_lock list \<Rightarrow> nat \<Rightarrow> int \<Rightarrow> int \<Rightarrow> rw \<Rightarrow> int" where
  "check_lock_loop [] fl start end type = 0"
| "check_lock_loop (flock # rest) fl start end type =
     (if fl_end flock \<ge> start \<and> end \<ge> fl_start flock then
        (if fl_type flock = F_RDLCK then
           (if type = WRITE then 1 else check_lock_loop rest fl start end type)
         else if fl_type flock = F_WRLCK then
           (if fl_file flock \<noteq> fl then 1 else check_lock_loop rest fl start end type)
         else check_lock_loop rest fl start end type)
      else check_lock_loop rest fl start end type)"

definition check_lock_range :: "host \<Rightarrow> nat \<Rightarrow> int \<Rightarrow> int \<Rightarrow> rw \<Rightarrow> int" where
  "check_lock_range h fl start end type =
     (case i_flctx (file_inode h fl) of
        None \<Rightarrow> 0
      | Some flc_posix \<Rightarrow>
          if flc_posix = [] then 0 else check_lock_loop flc_posix fl start end type)"

text \<open>
  Modelled from the spec: \<open>smb_find_cont_xattr\<close>, \<open>smb_store_cont_xattr\<close> and
  \<open>alloc_data_mem\<close> are defined outside the sources at hand. The first fetches the
  value of a named extended attribute (\<open>-ENOENT\<close> when there is none), the second
  stores the first \<open>size\<close> bytes of a buffer as the value. A block from
  \<open>alloc_data_mem\<close> holds the byte \<open>fill i\<close> at offset \<open>i\<close>.
\<close>

definition XATTR_SIZE_MAX :: nat where
  "XATTR_SIZE_MAX = 65536"

definition smb_find_cont_xattr :: "host \<Rightarrow> nat \<Rightarrow> string \<Rightarrow> 8 word list option" where
  "smb_find_cont_xattr h fl attr_name = i_xattrs (file_inode h fl) attr_name"

definition smb_store_cont_xattr ::
  "host \<Rightarrow> nat \<Rightarrow> string \<Rightarrow> 8 word list \<Rightarrow> nat \<Rightarrow> host" where
  "smb_store_cont_xattr h fl attr_name buf sz =
     h\<lparr>inodes := (inodes h)
          (f_inode (files h fl) :=
             (file_inode h fl)
               \<lparr>i_xattrs := (i_xattrs (file_inode h fl))(attr_name := Some (take sz buf))\<rparr>)\<rparr>"

definition alloc_data_mem :: "(nat \<Rightarrow> 8 word) \<Rightarrow> nat \<Rightarrow> 8 word list" where
  "alloc_data_mem fill sz = map fill [0..<sz]"

text \<open>
  What the host does on the calls that leave the adapter, and the memory it hands out:
  the results of \<open>vfs_read\<close>, \<open>vfs_write\<close>, \<open>vfs_fsync_range\<close> and
  \<open>smb_store_cont_xattr\<close> (a byte count or 0, or a negative errno), the data
  \<open>vfs_read\<close> delivers, the outcomes of the coming allocations and the content of new
  blocks.
\<close>

record env =
  vfs_read_ret :: int
  vfs_read_data :: "8 word list"
  vfs_write_ret :: int
  vfs_fsync_ret :: int
  store_xattr_ret :: int
  allocs :: kmem
  fill :: "nat \<Rightarrow> 8 word"

text \<open>\<open>fp_put\<close> on the object in slot \<open>fid\<close> (the \<open>out:\<close> label of both helpers).\<close>

definition put_slot :: "fidtable \<Rightarrow> nat \<Rightarrow> fidtable" where
  "put_slot ftab fid =
     (case fileid ftab fid of
        None \<Rightarrow> ftab
      | Some fp \<Rightarrow> ftab\<lparr>fileid := (fileid ftab)(fid := Some (fp_put fp))\<rparr>)"

text \<open>
  \<open>smb_vfs_read\<close> in the build without \<open>CONFIG_CIFS_SMB2_SERVER\<close>. The result is the
  byte count or a negative errno, the buffer handed to the caller (if any), the table
  and the host afterwards. In the stream branch the \<open>memcpy\<close> takes \<open>count\<close> bytes at
  \<open>pos\<close> of the attribute value; the model keeps those of them that lie inside the
  value.
\<close>

definition smb_vfs_read ::
  "fid_consts \<Rightarrow> fidtable \<Rightarrow> host \<Rightarrow> env \<Rightarrow> nat \<Rightarrow> nat \<Rightarrow> int
     \<Rightarrow> int \<times> 8 word list option \<times> fidtable \<times> host" where
  "smb_vfs_read K ftab h e fid count pos =
     (case get_id_from_fidtable K ftab fid of
        (None, ftab1) \<Rightarrow> (- ENOENT, None, ftab1, h)
      | (Some fp, ftab1) \<Rightarrow>
          (let fl = filp fp; out = put_slot ftab1 fid in
           if i_isdir (file_inode h fl) then (- EISDIR, None, out, h)
           else if count = 0 then (0, None, out, h)
           else if \<not> fst (kalloc (allocs e)) then (- ENOMEM, None, out, h)
           else if is_stream fp then
             (case smb_find_cont_xattr h fl (stream_name fp) of
                None \<Rightarrow> (- ENOENT, None, out, h)
              | Some stream_buf \<Rightarrow>
                  (let v_len = length stream_buf;
                       rbuf = take count (drop (nat pos) stream_buf)
                   in (if v_len > count then int count else int v_len, Some rbuf, out, h)))
           else if check_lock_range h fl pos (s64 (pos + int count - 1)) READ \<noteq> 0
           then (- EAGAIN, None, out, h)
           else if vfs_read_ret e < 0 then (vfs_read_ret e, None, out, h)
           else (vfs_read_ret e, Some (vfs_read_data e), out,
                 h\<lparr>files := (files h)(fl := (files h fl)\<lparr>f_pos := pos + vfs_read_ret e\<rparr>)\<rparr>)))"

text \<open>
  \<open>smb_vfs_write\<close> in the same build. The result is 0 or a negative errno, the value
  of \<open>*written\<close>, the table and the host afterwards. A \<open>memcpy\<close> that leaves its source
  or its destination buffer is the outcome \<open>OUT_OF_BOUNDS\<close>. The break of level-II
  oplocks before \<open>vfs_write\<close> happens in the oplock module and leaves the modelled
  state alone.
\<close>

definition smb_vfs_write ::
  "fid_consts \<Rightarrow> fidtable \<Rightarrow> host \<Rightarrow> env \<Rightarrow> nat \<Rightarrow> 8 word list \<Rightarrow> nat \<Rightarrow> int \<Rightarrow> bool
     \<Rightarrow> int \<Rightarrow> kernel_bug + (int \<times> int \<times> fidtable \<times> host)" where
  "smb_vfs_write K ftab h e fid buf count0 pos sync written0 =
     (case get_id_from_fidtable K ftab fid of
        (None, ftab1) \<Rightarrow> Inr (- ENOENT, written0, ftab1, h)
      | (Some fp, ftab1) \<Rightarrow>
          (let fl = filp fp; out = put_slot ftab1 fid in
           if is_stream fp then
             (let over = u64 (pos + int count0) > XATTR_SIZE_MAX;
                  size = (if over then XATTR_SIZE_MAX else u64 (pos + int count0));
                  count = (if over then u64 (pos + int count0 - int XATTR_SIZE_MAX)
                           else count0)
              in case smb_find_cont_xattr h fl (stream_name fp) of
                   None \<Rightarrow> Inr (- ENOENT, written0, out, h)
                 | Some old_buf \<Rightarrow>
                     (let v_len = length old_buf in
                      if v_len < size \<and> \<not> fst (kalloc (allocs e))
                      then Inr (- ENOMEM, written0, out, h)
                      else
                        (let stream_buf =
                               (if v_len < size
                                then old_buf @ drop v_len (alloc_data_mem (fill e) size)
                                else old_buf)
                         in if pos < 0 \<or> nat pos + count > length stream_buf
                               \<or> count > length buf
                            then Inl OUT_OF_BOUNDS
                            else
                              (let stream_buf' =
                                     take (nat pos) stream_buf @ take count buf
                                       @ drop (nat pos + count) stream_buf
                               in if store_xattr_ret e < 0
                                  then Inr (store_xattr_ret e, written0, out, h)
                                  else
                                    (let h1 = smb_store_cont_xattr h fl (stream_name fp)
                                                stream_buf' size;
                                         h2 = h1\<lparr>files := (files h1)
                                                (fl := (files h1 fl)\<lparr>f_pos := pos\<rparr>)\<rparr>
                                     in Inr (0, int count, out, h2))))))
           else if check_lock_range h fl pos (s64 (pos + int count0 - 1)) WRITE \<noteq> 0
           then Inr (- EAGAIN, written0, out, h)
           else if vfs_write_ret e < 0 then Inr (vfs_write_ret e, written0, out, h)
           else
             (let h1 = h\<lparr>files := (files h)
                         (fl := (files h fl)\<lparr>f_pos := pos + vfs_write_ret e\<rparr>)\<rparr>
              in Inr (if sync then vfs_fsync_ret e else 0, vfs_write_ret e, out, h1))))"

section \<open>SMB1 commands: READ_ANDX\<close>

datatype nt_status =
    NT_STATUS_OK
  | NT_STATUS_INVALID_HANDLE
  | NT_STATUS_FILE_LOCK_CONFLICT
  | NT_STATUS_NO_MEMORY
  | NT_STATUS_NO_SUCH_FILE
  | NT_STATUS_UNEXPECTED_IO_ERROR
  | NT_STATUS_DISK_FULL

text \<open>The fields of \<open>READ_REQ\<close> that \<open>smb_read_andx\<close> reads, already in host order.\<close>

record read_req =
  req_WordCount :: "8 word"
  req_AndXCommand :: "8 word"
  req_Fid :: "16 word"
  OffsetLow :: "32 word"
  MaxCount :: "16 word"
  MaxCountHigh :: "32 word"
  OffsetHigh :: "32 word"

text \<open>
  The fields of \<open>READ_RSP\<close> that \<open>smb_read_andx\<close> writes. The fields computed from
  structure sizes (\<open>DataOffset\<close>, \<open>AndXOffset\<close>, the RFC1001 length) are left out.
\<close>

record read_rsp =
  Status_CifsError :: nt_status
  rsp_WordCount :: "8 word"
  DataLength :: "16 word"
  DataLengthHigh :: "16 word"
  rsp_ByteCount :: "16 word"
  rsp_AndXCommand :: "8 word"

text \<open>\<open>pos\<close> and \<open>count\<close> as \<open>smb_read_andx\<close> computes them from the request.\<close>

definition read_pos :: "read_req \<Rightarrow> int" where
  "read_pos req =
     (if req_WordCount req = 12
      then s64 (uint (OffsetLow req) + uint (OffsetHigh req) * 2 ^ 32)
      else uint (OffsetLow req))"

definition read_count :: "bool \<Rightarrow> nat \<Rightarrow> read_req \<Rightarrow> nat" where
  "read_count cap_large_read_x iosize req =
     (let count = (if cap_large_read_x
                   then unat (MaxCount req) + unat (push_bit 16 (MaxCountHigh req))
                   else unat (MaxCount req))
      in if count > iosize then iosize else count)"

text \<open>
  \<open>smb_read_andx\<close>. \<open>iosize\<close> is \<open>CIFS_DEFAULT_IOSIZE\<close>; \<open>pipe\<close> is what
  \<open>smb_read_andx_pipe\<close> answers on an IPC share. The result is the return value, the
  response, the data buffer attached to the work item, the table and the host.
\<close>

definition smb_read_andx ::
  "fid_consts \<Rightarrow> nat \<Rightarrow> bool \<Rightarrow> bool \<Rightarrow> int \<times> read_rsp \<Rightarrow> fidtable \<Rightarrow> host \<Rightarrow> env
     \<Rightarrow> read_req \<Rightarrow> read_rsp
     \<Rightarrow> int \<times> read_rsp \<times> 8 word list option \<times> fidtable \<times> host" where
  "smb_read_andx K iosize cap_large_read_x is_pipe pipe ftab h e req rsp =
     (if is_pipe then (fst pipe, snd pipe, None, ftab, h)
      else
        (let pos = read_pos req;
             count = read_count cap_large_read_x iosize req
         in case smb_vfs_read K ftab h e (unat (req_Fid req)) count pos of
              (nbytes, rdata_buf, ftab', h') \<Rightarrow>
                if nbytes < 0
                then (nbytes, rsp\<lparr>Status_CifsError := NT_STATUS_INVALID_HANDLE\<rparr>,
                      rdata_buf, ftab', h')
                else
                  (let rsp1 = rsp\<lparr>Status_CifsError := NT_STATUS_OK,
                                   rsp_WordCount := 12,
                                   DataLength := word_of_int nbytes,
                                   DataLengthHigh := word_of_int (nbytes div 2 ^ 16),
                                   rsp_ByteCount := word_of_int nbytes\<rparr>
                   in if req_AndXCommand req = 0xFF
                      then (0, rsp1\<lparr>rsp_AndXCommand := 0xFF\<rparr>, rdata_buf, ftab', h')
                      else (uint (req_AndXCommand req),
                            rsp1\<lparr>rsp_AndXCommand := req_AndXCommand req\<rparr>,
                            rdata_buf, ftab', h'))))"

text \<open>
  Example: two opens (FID 1 on open file 101, FID 2 on open file 102) of inode 7,
  a regular file on which open file 101 holds the write lock \<open>[0, 9]\<close>; FID 2 reads
  2 bytes at offset 5.
\<close>

definition two_opens :: fidtable where
  "two_opens =
     \<lparr>max_fids = 64,
      fileid = (\<lambda>i. None)
        (1 := Some (zeroed_file\<lparr>filp := 101, f_state := FP_READY\<rparr>),
         2 := Some (zeroed_file\<lparr>filp := 102, f_state := FP_READY\<rparr>)),
      start_pos = 3,
      cifsd_bitmap = (\<lambda>i. i = 1 \<or> i = 2)\<rparr>"

definition lock_0_9 :: file_lock where
  "lock_0_9 = \<lparr>fl_start = 0, fl_end = 9, fl_type = F_WRLCK, fl_file = 101\<rparr>"

definition locked_host :: host where
  "locked_host =
     \<lparr>files = (\<lambda>fl. \<lparr>f_inode = 7, f_pos = 0\<rparr>),
      inodes = (\<lambda>i. \<lparr>i_isdir = False, i_flctx = Some [lock_0_9],
                         i_xattrs = (\<lambda>n. None)\<rparr>)\<rparr>"

definition quiet_env :: env where
  "quiet_env =
     \<lparr>vfs_read_ret = 0, vfs_read_data = [], vfs_write_ret = 0, vfs_fsync_ret = 0,
      store_xattr_ret = 0, allocs = [], fill = (\<lambda>i. 0)\<rparr>"

definition read_5_2 :: read_req where
  "read_5_2 =
     \<lparr>req_WordCount = 10, req_AndXCommand = 0xFF, req_Fid = 2, OffsetLow = 5,
      MaxCount = 2, MaxCountHigh = 0, OffsetHigh = 0\<rparr>"

definition blank_rsp :: read_rsp where
  "blank_rsp =
     \<lparr>Status_CifsError = NT_STATUS_OK, rsp_WordCount = 0, DataLength = 0,
      DataLengthHigh = 0, rsp_ByteCount = 0, rsp_AndXCommand = 0\<rparr>"

text \<open>
  Example: FID 1 is an open of the alternate data stream \<open>s\<close> of open file 201, whose
  value is still empty; 8 bytes are written at offset 65530.
\<close>

definition stream_open :: fidtable where
  "stream_open =
     \<lparr>max_fids = 64,
      fileid = (\<lambda>i. None)
        (1 := Some (zeroed_file\<lparr>filp := 201, f_state := FP_READY, is_stream := True,
                                 stream_name := ''user.stream:s''\<rparr>)),
      start_pos = 2,
      cifsd_bitmap = (\<lambda>i. i = 1)\<rparr>"

definition stream_host :: host where
  "stream_host =
     \<lparr>files = (\<lambda>fl. \<lparr>f_inode = 8, f_pos = 0\<rparr>),
      inodes = (\<lambda>i. \<lparr>i_isdir = False, i_flctx = None,
                         i_xattrs = (\<lambda>n. if n = ''user.stream:s'' then Some [] else None)\<rparr>)\<rparr>"

definition data8 :: "8 word list" where
  "data8 = [0x41, 0x42, 0x43, 0x44, 0x45, 0x46, 0x47, 0x48]"

definition stream_write_8 :: "kernel_bug + (int \<times> int \<times> fidtable \<times> host)" where
  "stream_write_8 = smb_vfs_write consts64 stream_open stream_host quiet_env 1 data8 8 65530 False 0"

definition stream_value_after :: "8 word list" where
  "stream_value_after =
     the (i_xattrs (file_inode (snd (snd (snd (projr stream_write_8)))) 201) ''user.stream:s'')"

section \<open>8.3 short names (smb1pdu.c)\<close>

text \<open>
  A name is the list of the bytes of the C string before its terminating NUL.
  \<open>basechars\<close> is declared with 43 elements and initialised with 43 characters, so it
  has no terminating NUL and \<open>sizeof(basechars)\<close> is 43.
\<close>

definition basechars :: string where
  "basechars = ''0123456789ABCDEFGHIJKLMNOPQRSTUVWXYZ_-!@#$%''"

definition MANGLE_BASE :: nat where
  "MANGLE_BASE = length basechars - 1"

definition MAGIC_CHAR :: char where
  "MAGIC_CHAR = CHR ''~''"

definition PERIOD :: char where
  "PERIOD = CHR ''.''"

definition mangle :: "nat \<Rightarrow> char" where
  "mangle V = basechars ! (V mod MANGLE_BASE)"

text \<open>
  The kernel's \<open>toupper\<close>: a byte that the kernel's character table marks as a
  lower-case letter (\<open>a\<close> to \<open>z\<close>, and \<open>0xDF\<close> to \<open>0xFF\<close> without \<open>0xF7\<close>) loses
  \<open>0x20\<close>.
\<close>

definition islower :: "char \<Rightarrow> bool" where
  "islower c =
     (let n = (of_char c :: nat)
      in (0x61 \<le> n \<and> n \<le> 0x7A) \<or> (0xDF \<le> n \<and> n \<le> 0xF6) \<or> (0xF8 \<le> n \<and> n \<le> 0xFF))"

definition toupper :: "char \<Rightarrow> char" where
  "toupper c = (if islower c then char_of ((of_char c :: nat) - 0x20) else c)"

text \<open>\<open>strrchr\<close>: the offset of the last occurrence, if there is one.\<close>

fun strrchr :: "string \<Rightarrow> char \<Rightarrow> nat option" where
  "strrchr [] c = None"
| "strrchr (x # xs) c =
     (case strrchr xs c of
        Some i \<Rightarrow> Some (Suc i)
      | None \<Rightarrow> if x = c then Some 0 else None)"

text \<open>The loop that collects the extension: \<open>while (*p && extlen < 3)\<close>.\<close>

fun extension_loop :: "string \<Rightarrow> string \<Rightarrow> string" where
  "extension_loop [] extension = extension"
| "extension_loop (c # p) extension =
     (if length extension < 3
      then extension_loop p (if c \<noteq> CHR ''.'' then extension @ [toupper c] else extension)
      else extension)"

text \<open>The loop that collects the base: \<open>while (*p && (baselen < 5))\<close>.\<close>

fun base_loop :: "string \<Rightarrow> string \<Rightarrow> string" where
  "base_loop [] base = base"
| "base_loop (c # p) base =
     (if length base < 5
      then base_loop p (if c \<noteq> CHR ''.'' then base @ [toupper c] else base)
      else base)"

text \<open>The checksum loop; \<open>csum\<close> is an \<open>unsigned int\<close>.\<close>

fun csum_loop :: "string \<Rightarrow> nat \<Rightarrow> nat" where
  "csum_loop [] csum = csum"
| "csum_loop (c # ptr) csum = csum_loop ptr ((csum + of_char c) mod 2 ^ 32)"

text \<open>
  \<open>smb_get_shortname\<close>: the return value and the content of \<open>out\<close>, which is what
  \<open>shortname\<close> receives (converted to UTF-16); \<open>None\<close> when the caller's buffer is left
  alone. A name that starts with a period has its first byte overwritten with NUL
  before the base and the checksum are computed.
\<close>

definition smb_get_shortname :: "string \<Rightarrow> int \<times> string option" where
  "smb_get_shortname longname =
     (if (longname \<noteq> [] \<and> hd longname = CHR ''.'') \<or> longname = ''..'' then (0, None)
      else
        (let p = strrchr longname CHR ''.'';
             dot_present = (p \<noteq> None);
             extension =
               (case p of
                  Some 0 \<Rightarrow> ''___''
                | Some (Suc i) \<Rightarrow> extension_loop (drop (Suc (Suc i)) longname) []
                | None \<Rightarrow> []);
             starts_dot = (longname \<noteq> [] \<and> hd longname = CHR ''.'');
             base = base_loop (if starts_dot then tl longname else longname) [];
             csum = csum_loop (if starts_dot then [] else longname) 0
                      mod (MANGLE_BASE * MANGLE_BASE);
             out = base @ [MAGIC_CHAR] @ [mangle (csum div MANGLE_BASE), mangle csum]
                     @ [PERIOD] @ (if dot_present then extension else [])
         in (int (length out * 2), Some out)))"

text \<open>
  The short name in closed form: the upper-cased first five characters other than
  the period, a tilde, the two digits of the byte sum modulo \<open>42\<^sup>2\<close> in base 42 over
  the alphabet, a period, and the upper-cased first three characters after the last
  period of the name (nothing for a name without a period).
\<close>

definition after_last_period :: "string \<Rightarrow> string" where
  "after_last_period s = rev (takeWhile (\<lambda>c. c \<noteq> CHR ''.'') (rev s))"

definition byte_sum :: "string \<Rightarrow> nat" where
  "byte_sum s = sum_list (map of_char s) mod 2 ^ 32"

definition mangled_name :: "string \<Rightarrow> string" where
  "mangled_name s =
     map toupper (take 5 (filter (\<lambda>c. c \<noteq> CHR ''.'') s))
     @ ''~''
     @ [basechars ! ((byte_sum s mod 42\<^sup>2) div 42), basechars ! ((byte_sum s mod 42\<^sup>2) mod 42)]
     @ ''.''
     @ (if CHR ''.'' \<in> set s then map toupper (take 3 (after_last_period s)) else [])"

section \<open>Security descriptors: DACL and POSIX mode\<close>

text \<open>
  \<open>umode_t\<close> is an unsigned 16-bit integer. The permission masks are the kernel's
  (octal 0700, 0070, 0007, 0777, 0444, 0222, 0111).
\<close>

type_synonym umode_t = "16 word"

definition S_IRWXU :: umode_t where "S_IRWXU = 448"
definition S_IRWXG :: umode_t where "S_IRWXG = 56"
definition S_IRWXO :: umode_t where "S_IRWXO = 7"
definition S_IRWXUGO :: umode_t where "S_IRWXUGO = 511"
definition S_IRUGO :: umode_t where "S_IRUGO = 292"
definition S_IWUGO :: umode_t where "S_IWUGO = 146"
definition S_IXUGO :: umode_t where "S_IXUGO = 73"

text \<open>
  The access-right masks and the ACE types are macros of a header that is not part of
  the sources at hand; they are parameters of the model.
\<close>

record acl_consts =
  GENERIC_ALL :: "32 word"
  GENERIC_WRITE :: "32 word"
  GENERIC_READ :: "32 word"
  GENERIC_EXECUTE :: "32 word"
  FILE_WRITE_RIGHTS :: "32 word"
  FILE_READ_RIGHTS :: "32 word"
  FILE_EXEC_RIGHTS :: "32 word"
  SET_FILE_READ_RIGHTS :: "32 word"
  SET_FILE_WRITE_RIGHTS :: "32 word"
  SET_FILE_EXEC_RIGHTS :: "32 word"
  SET_MINIMUM_RIGHTS :: "32 word"
  ACCESS_ALLOWED :: "8 word"
  ACCESS_DENIED :: "8 word"

text \<open>
  \<open>struct cifs_sid\<close>; the two arrays are memory indexed from 0 (\<open>authority\<close> has
  \<open>NUM_AUTHS = 6\<close> bytes).
\<close>

record cifs_sid =
  revision :: "8 word"
  num_subauth :: "8 word"
  authority :: "nat \<Rightarrow> 8 word"
  sub_auth :: "nat \<Rightarrow> 32 word"

definition NUM_AUTHS :: nat where "NUM_AUTHS = 6"

text \<open>S-1-1-0 (everyone) and S-1-5-11 (authenticated users), as the file declares them.\<close>

definition sid_everyone :: cifs_sid where
  "sid_everyone =
     \<lparr>revision = 1, num_subauth = 1, authority = (\<lambda>i. if i = 5 then 1 else 0),
      sub_auth = (\<lambda>i. 0)\<rparr>"

definition sid_authusers :: cifs_sid where
  "sid_authusers =
     \<lparr>revision = 1, num_subauth = 1, authority = (\<lambda>i. if i = 5 then 5 else 0),
      sub_auth = (\<lambda>i. if i = 0 then 11 else 0)\<rparr>"

text \<open>The two comparison loops of \<open>compare_sids\<close>, from index \<open>i\<close> over \<open>n\<close> entries.\<close>

fun compare_auth :: "(nat \<Rightarrow> 8 word) \<Rightarrow> (nat \<Rightarrow> 8 word) \<Rightarrow> nat \<Rightarrow> nat \<Rightarrow> int" where
  "compare_auth a b i 0 = 0"
| "compare_auth a b i (Suc n) =
     (if a i \<noteq> b i then (if a i > b i then 1 else - 1)
      else compare_auth a b (Suc i) n)"

fun compare_subauth :: "(nat \<Rightarrow> 32 word) \<Rightarrow> (nat \<Rightarrow> 32 word) \<Rightarrow> nat \<Rightarrow> nat \<Rightarrow> int" where
  "compare_subauth a b i 0 = 0"
| "compare_subauth a b i (Suc n) =
     (if a i \<noteq> b i then (if a i > b i then 1 else - 1)
      else compare_subauth a b (Suc i) n)"

text \<open>\<open>compare_sids\<close> for two SIDs that are there (neither pointer is \<open>NULL\<close>).\<close>

definition compare_sids :: "cifs_sid \<Rightarrow> cifs_sid \<Rightarrow> int" where
  "compare_sids ctsid cwsid =
     (if revision ctsid \<noteq> revision cwsid
      then (if revision ctsid > revision cwsid then 1 else - 1)
      else if compare_auth (authority ctsid) (authority cwsid) 0 NUM_AUTHS \<noteq> 0
      then compare_auth (authority ctsid) (authority cwsid) 0 NUM_AUTHS
      else
        (let num_sat = unat (num_subauth ctsid);
             num_saw = unat (num_subauth cwsid);
             num_subauth' = (if num_sat < num_saw then num_sat else num_saw)
         in compare_subauth (sub_auth ctsid) (sub_auth cwsid) 0 num_subauth'))"

text \<open>\<open>struct cifs_ace\<close> and the header \<open>struct cifs_acl\<close> (8 bytes).\<close>

record cifs_ace =
  ace_type :: "8 word"
  ace_flags :: "8 word"
  ace_size :: "16 word"
  access_req :: "32 word"
  ace_sid :: cifs_sid

record cifs_acl =
  acl_revision :: "16 word"
  acl_size :: "16 word"
  num_aces :: "32 word"

definition sizeof_cifs_acl :: nat where "sizeof_cifs_acl = 8"

text \<open>
  The buffer that holds a descriptor: what is found at a byte address when it is read
  as an ACL header, as an ACE, as a SID.
\<close>

record sd_mem =
  acl_at :: "nat \<Rightarrow> cifs_acl"
  ace_at :: "nat \<Rightarrow> cifs_ace"
  sid_at :: "nat \<Rightarrow> cifs_sid"

subsection \<open>Mode to DACL\<close>

definition mode_to_access_flags :: "acl_consts \<Rightarrow> umode_t \<Rightarrow> umode_t \<Rightarrow> 32 word" where
  "mode_to_access_flags R mode0 bits_to_use =
     (let mode = mode0 AND bits_to_use;
          f1 = (if mode AND S_IRUGO \<noteq> 0 then SET_FILE_READ_RIGHTS R else 0);
          f2 = (if mode AND S_IWUGO \<noteq> 0 then f1 OR SET_FILE_WRITE_RIGHTS R else f1);
          f3 = (if mode AND S_IXUGO \<noteq> 0 then f2 OR SET_FILE_EXEC_RIGHTS R else f2)
      in f3)"

subsection \<open>DACL to mode\<close>

text \<open>\<open>access_flags_to_mode\<close>: the mode and the mask (\<open>*pbits_to_set\<close>) after the call.\<close>

definition access_flags_to_mode ::
  "acl_consts \<Rightarrow> 32 word \<Rightarrow> 8 word \<Rightarrow> umode_t \<Rightarrow> umode_t \<Rightarrow> umode_t \<times> umode_t" where
  "access_flags_to_mode R flags type pmode pbits_to_set =
     (if type = ACCESS_DENIED R then
        (let b0 = (if flags AND GENERIC_ALL R \<noteq> 0 then pbits_to_set AND NOT S_IRWXUGO
                   else pbits_to_set);
             b1 = (if flags AND GENERIC_WRITE R \<noteq> 0
                      \<or> flags AND FILE_WRITE_RIGHTS R = FILE_WRITE_RIGHTS R
                   then b0 AND NOT S_IWUGO else b0);
             b2 = (if flags AND GENERIC_READ R \<noteq> 0
                      \<or> flags AND FILE_READ_RIGHTS R = FILE_READ_RIGHTS R
                   then b1 AND NOT S_IRUGO else b1);
             b3 = (if flags AND GENERIC_EXECUTE R \<noteq> 0
                      \<or> flags AND FILE_EXEC_RIGHTS R = FILE_EXEC_RIGHTS R
                   then b2 AND NOT S_IXUGO else b2)
         in (pmode, b3))
      else if type \<noteq> ACCESS_ALLOWED R then (pmode, pbits_to_set)
      else if flags AND GENERIC_ALL R \<noteq> 0
      then (pmode OR (S_IRWXUGO AND pbits_to_set), pbits_to_set)
      else
        (let m1 = (if flags AND GENERIC_WRITE R \<noteq> 0
                      \<or> flags AND FILE_WRITE_RIGHTS R = FILE_WRITE_RIGHTS R
                   then pmode OR (S_IWUGO AND pbits_to_set) else pmode);
             m2 = (if flags AND GENERIC_READ R \<noteq> 0
                      \<or> flags AND FILE_READ_RIGHTS R = FILE_READ_RIGHTS R
                   then m1 OR (S_IRUGO AND pbits_to_set) else m1);
             m3 = (if flags AND GENERIC_EXECUTE R \<noteq> 0
                      \<or> flags AND FILE_EXEC_RIGHTS R = FILE_EXEC_RIGHTS R
                   then m2 OR (S_IXUGO AND pbits_to_set) else m2)
         in (m3, pbits_to_set)))"

text \<open>The state of the loop of \<open>parse_dacl\<close>: the mode and the three masks.\<close>

record dacl_state =
  cf_mode :: umode_t
  user_mask :: umode_t
  group_mask :: umode_t
  other_mask :: umode_t

text \<open>What one round of the loop does with the ACE it finds.\<close>

definition parse_ace ::
  "acl_consts \<Rightarrow> cifs_ace \<Rightarrow> cifs_sid \<Rightarrow> cifs_sid \<Rightarrow> dacl_state \<Rightarrow> dacl_state" where
  "parse_ace R ace pownersid pgrpsid st =
     (let st1 = (if compare_sids (ace_sid ace) pownersid = 0
                 then (case access_flags_to_mode R (access_req ace) (ace_type ace)
                              (cf_mode st) (user_mask st) of
                         (md, mk) \<Rightarrow> st\<lparr>cf_mode := md, user_mask := mk\<rparr>)
                 else st);
          st2 = (if compare_sids (ace_sid ace) pgrpsid = 0
                 then (case access_flags_to_mode R (access_req ace) (ace_type ace)
                              (cf_mode st1) (group_mask st1) of
                         (md, mk) \<Rightarrow> st1\<lparr>cf_mode := md, group_mask := mk\<rparr>)
                 else st1);
          st3 = (if compare_sids (ace_sid ace) sid_everyone = 0
                 then (case access_flags_to_mode R (access_req ace) (ace_type ace)
                              (cf_mode st2) (other_mask st2) of
                         (md, mk) \<Rightarrow> st2\<lparr>cf_mode := md, other_mask := mk\<rparr>)
                 else st2);
          st4 = (if compare_sids (ace_sid ace) sid_authusers = 0
                 then (case access_flags_to_mode R (access_req ace) (ace_type ace)
                              (cf_mode st3) (other_mask st3) of
                         (md, mk) \<Rightarrow> st3\<lparr>cf_mode := md, other_mask := mk\<rparr>)
                 else st3)
      in st4)"

text \<open>
  The \<open>for\<close> loop of \<open>parse_dacl\<close> with \<open>n\<close> rounds to go: the next ACE is at
  \<open>acl_base + acl_size\<close>.
\<close>

fun parse_dacl_loop ::
  "acl_consts \<Rightarrow> sd_mem \<Rightarrow> cifs_sid \<Rightarrow> cifs_sid \<Rightarrow> nat \<Rightarrow> nat \<Rightarrow> nat \<Rightarrow> dacl_state
     \<Rightarrow> dacl_state" where
  "parse_dacl_loop R m pownersid pgrpsid 0 acl_base acl_size' st = st"
| "parse_dacl_loop R m pownersid pgrpsid (Suc n) acl_base acl_size' st =
     (let ppace = acl_base + acl_size';
          st' = parse_ace R (ace_at m ppace) pownersid pgrpsid st
      in parse_dacl_loop R m pownersid pgrpsid n ppace
           (unat (ace_size (ace_at m ppace))) st')"

text \<open>
  \<open>parse_dacl\<close>: the mode (\<open>fattr->cf_mode\<close>) after the call. \<open>pdacl\<close> is \<open>None\<close> for
  a \<open>NULL\<close> pointer; \<open>num_aces\<close> is read into an \<open>int\<close>.
\<close>

definition parse_dacl ::
  "acl_consts \<Rightarrow> sd_mem \<Rightarrow> nat option \<Rightarrow> nat \<Rightarrow> cifs_sid \<Rightarrow> cifs_sid \<Rightarrow> umode_t \<Rightarrow> kmem
     \<Rightarrow> umode_t" where
  "parse_dacl R m pdacl end_of_acl pownersid pgrpsid mode mem =
     (case pdacl of
        None \<Rightarrow> mode OR S_IRWXUGO
      | Some p \<Rightarrow>
          if end_of_acl < p + unat (acl_size (acl_at m p)) then mode
          else
            (let mode1 = mode AND NOT S_IRWXUGO;
                 n = sint (num_aces (acl_at m p))
             in if n > 0 then
                  (if \<not> fst (kalloc mem) then mode1
                   else cf_mode (parse_dacl_loop R m pownersid pgrpsid (nat n) p
                          sizeof_cifs_acl
                          \<lparr>cf_mode = mode1, user_mask = S_IRWXU, group_mask = S_IRWXG,
                           other_mask = S_IRWXU OR S_IRWXG OR S_IRWXO\<rparr>))
                else mode1))"

subsection \<open>The descriptor\<close>

text \<open>
  \<open>struct cifs_ntsd\<close> at address \<open>pntsd\<close>, and the attributes the parse fills in.
  \<open>sid_to_id\<close> asks the id-mapping service, which is outside the sources at hand:
  \<open>idmap\<close> is its answer (\<open>None\<close>: no mapping, the id stays invalid).
\<close>

record cifs_ntsd =
  osidoffset :: "32 word"
  gsidoffset :: "32 word"
  sacloffset :: "32 word"
  dacloffset :: "32 word"

record cifsd_fattr =
  cf_uid :: "32 word"
  cf_gid :: "32 word"
  fattr_mode :: umode_t

datatype sidtype = SIDOWNER | SIDGROUP

definition SID_MAX_SUB_AUTHORITIES :: nat where "SID_MAX_SUB_AUTHORITIES = 15"

definition parse_sid :: "nat \<Rightarrow> nat \<Rightarrow> int" where
  "parse_sid psid end_of_acl = (if end_of_acl < psid + 8 then - EINVAL else 0)"

definition EIO :: int where "EIO = 5"

definition sid_to_id ::
  "(cifs_sid \<Rightarrow> sidtype \<Rightarrow> 32 word option) \<Rightarrow> cifs_sid \<Rightarrow> cifsd_fattr \<Rightarrow> sidtype \<Rightarrow> kmem
     \<Rightarrow> int \<times> cifsd_fattr \<times> kmem" where
  "sid_to_id idmap psid fattr t mem =
     (if unat (num_subauth psid) > SID_MAX_SUB_AUTHORITIES then (- EIO, fattr, mem)
      else
        (case kalloc mem of
           (False, mem') \<Rightarrow> (- ENOMEM, fattr, mem')
         | (True, mem') \<Rightarrow>
             (let v = (case idmap psid t of Some x \<Rightarrow> x | None \<Rightarrow> - 1)
              in (0, if t = SIDOWNER then fattr\<lparr>cf_uid := v\<rparr> else fattr\<lparr>cf_gid := v\<rparr>,
                  mem'))))"

definition parse_sec_desc ::
  "acl_consts \<Rightarrow> (cifs_sid \<Rightarrow> sidtype \<Rightarrow> 32 word option) \<Rightarrow> sd_mem \<Rightarrow> nat \<Rightarrow> cifs_ntsd
     \<Rightarrow> nat \<Rightarrow> cifsd_fattr \<Rightarrow> kmem \<Rightarrow> int \<times> cifsd_fattr" where
  "parse_sec_desc R idmap m pntsd hdr acl_len fattr mem =
     (let owner_sid_ptr = pntsd + unat (osidoffset hdr);
          group_sid_ptr = pntsd + unat (gsidoffset hdr);
          dacl_ptr = pntsd + unat (dacloffset hdr);
          end_of_acl = pntsd + acl_len
      in if parse_sid owner_sid_ptr end_of_acl \<noteq> 0
         then (parse_sid owner_sid_ptr end_of_acl, fattr)
         else
           (case sid_to_id idmap (sid_at m owner_sid_ptr) fattr SIDOWNER mem of
              (rc1, fattr1, mem1) \<Rightarrow>
                if rc1 \<noteq> 0 then (rc1, fattr1)
                else if parse_sid group_sid_ptr end_of_acl \<noteq> 0
                then (parse_sid group_sid_ptr end_of_acl, fattr1)
                else
                  (case sid_to_id idmap (sid_at m group_sid_ptr) fattr1 SIDGROUP mem1 of
                     (rc2, fattr2, mem2) \<Rightarrow>
                       if rc2 \<noteq> 0 then (rc2, fattr2)
                       else if dacloffset hdr \<noteq> 0
                       then (0, fattr2\<lparr>fattr_mode :=
                               parse_dacl R m (Some dacl_ptr) end_of_acl
                                 (sid_at m owner_sid_ptr) (sid_at m group_sid_ptr)
                                 (fattr_mode fattr2) mem2\<rparr>)
                       else (0, fattr2))))"

text \<open>
  Example. The access-right masks with the values the CIFS protocol headers give them;
  a descriptor at address 0 whose owner SID S-1-5-21-1000 is at offset 20 and whose
  group SID S-1-5-21-513 is at offset 88; an id-mapping service that knows both.
\<close>

definition cifs_rights :: acl_consts where
  "cifs_rights =
     \<lparr>GENERIC_ALL = 0x10000000, GENERIC_WRITE = 0x40000000, GENERIC_READ = 0x80000000,
      GENERIC_EXECUTE = 0x20000000,
      FILE_WRITE_RIGHTS = 0x116, FILE_READ_RIGHTS = 0x89, FILE_EXEC_RIGHTS = 0x20,
      SET_FILE_READ_RIGHTS = 0x1F0199, SET_FILE_WRITE_RIGHTS = 0x1F01DE,
      SET_FILE_EXEC_RIGHTS = 0x1F01B8, SET_MINIMUM_RIGHTS = 0x120088,
      ACCESS_ALLOWED = 0, ACCESS_DENIED = 1\<rparr>"

definition sid_owner :: cifs_sid where
  "sid_owner =
     \<lparr>revision = 1, num_subauth = 2, authority = (\<lambda>i. if i = 5 then 5 else 0),
      sub_auth = (\<lambda>i. if i = 0 then 21 else if i = 1 then 1000 else 0)\<rparr>"

definition sid_group :: cifs_sid where
  "sid_group =
     \<lparr>revision = 1, num_subauth = 2, authority = (\<lambda>i. if i = 5 then 5 else 0),
      sub_auth = (\<lambda>i. if i = 0 then 21 else if i = 1 then 513 else 0)\<rparr>"

definition blank_ace :: cifs_ace where
  "blank_ace =
     \<lparr>ace_type = 0, ace_flags = 0, ace_size = 0, access_req = 0,
      ace_sid = \<lparr>revision = 0, num_subauth = 0, authority = (\<lambda>i. 0),
                 sub_auth = (\<lambda>i. 0)\<rparr>\<rparr>"

definition sd_example :: sd_mem where
  "sd_example =
     \<lparr>acl_at = (\<lambda>a. \<lparr>acl_revision = 2, acl_size = 8, num_aces = 0\<rparr>),
      ace_at = (\<lambda>a. blank_ace),
      sid_at = (\<lambda>a. if a = 20 then sid_owner else sid_group)\<rparr>"

definition hdr_no_dacl :: cifs_ntsd where
  "hdr_no_dacl = \<lparr>osidoffset = 20, gsidoffset = 88, sacloffset = 0, dacloffset = 0\<rparr>"

definition hdr_empty_dacl :: cifs_ntsd where
  "hdr_empty_dacl = \<lparr>osidoffset = 20, gsidoffset = 88, sacloffset = 0, dacloffset = 156\<rparr>"

definition idmap_example :: "cifs_sid \<Rightarrow> sidtype \<Rightarrow> 32 word option" where
  "idmap_example s t = (if t = SIDOWNER then Some 1000 else Some 513)"

definition fattr_none :: cifsd_fattr where
  "fattr_none = \<lparr>cf_uid = 0, cf_gid = 0, fattr_mode = 0x8000\<rparr>"

definition fattr_all :: cifsd_fattr where
  "fattr_all = \<lparr>cf_uid = 0, cf_gid = 0, fattr_mode = 0x81FF\<rparr>"


subsection \<open>The descriptor in memory\<close>

text \<open>
  \<open>build_sec_desc\<close> writes a descriptor through pointers into one buffer, and pointers
  it hands on meet there; so the memory is explicit: the byte at each address. The
  multi-byte fields are little-endian (\<open>cpu_to_le16\<close>, \<open>cpu_to_le32\<close>).
\<close>

type_synonym sd_bytes = "nat \<Rightarrow> 8 word"

definition get_le16 :: "sd_bytes \<Rightarrow> nat \<Rightarrow> 16 word" where
  "get_le16 m a = ucast (m a) OR push_bit 8 (ucast (m (a + 1)))"

definition put_le16 :: "sd_bytes \<Rightarrow> nat \<Rightarrow> 16 word \<Rightarrow> sd_bytes" where
  "put_le16 m a v = m(a := ucast v, a + 1 := ucast (drop_bit 8 v))"

definition get_le32 :: "sd_bytes \<Rightarrow> nat \<Rightarrow> 32 word" where
  "get_le32 m a =
     ucast (m a) OR push_bit 8 (ucast (m (a + 1))) OR push_bit 16 (ucast (m (a + 2)))
       OR push_bit 24 (ucast (m (a + 3)))"

definition put_le32 :: "sd_bytes \<Rightarrow> nat \<Rightarrow> 32 word \<Rightarrow> sd_bytes" where
  "put_le32 m a v =
     m(a := ucast v, a + 1 := ucast (drop_bit 8 v), a + 2 := ucast (drop_bit 16 v),
       a + 3 := ucast (drop_bit 24 v))"

text \<open>
  The structures are declared in a header that is not among the sources at hand: their
  sizes and the offsets of their fields are parameters. (\<open>sizeof (struct cifs_acl)\<close> is
  the 8 bytes of above.) A \<open>sub_auth\<close> entry is a \<open>__le32\<close>, 4 bytes.
\<close>

record sd_layout =
  sizeof_cifs_ntsd :: nat
  sizeof_cifs_sid :: nat
  off_ntsd_revision :: nat
  off_ntsd_type :: nat
  off_osidoffset :: nat
  off_gsidoffset :: nat
  off_sacloffset :: nat
  off_dacloffset :: nat
  off_sid_revision :: nat
  off_sid_num_subauth :: nat
  off_sid_authority :: nat
  off_sid_sub_auth :: nat
  off_acl_revision :: nat
  off_acl_size :: nat
  off_acl_num_aces :: nat
  off_ace_type :: nat
  off_ace_flags :: nat
  off_ace_size :: nat
  off_ace_access_req :: nat
  off_ace_sid :: nat

text \<open>
  What the decoder finds when it reads an address as a SID, as an ACE, as an ACL header,
  and the offsets in the \<open>struct cifs_ntsd\<close> at \<open>pntsd\<close>.
\<close>

definition sid_in :: "sd_layout \<Rightarrow> sd_bytes \<Rightarrow> nat \<Rightarrow> cifs_sid" where
  "sid_in L m p =
     \<lparr>revision = m (p + off_sid_revision L),
      num_subauth = m (p + off_sid_num_subauth L),
      authority = (\<lambda>i. m (p + off_sid_authority L + i)),
      sub_auth = (\<lambda>i. get_le32 m (p + off_sid_sub_auth L + 4 * i))\<rparr>"

definition ace_in :: "sd_layout \<Rightarrow> sd_bytes \<Rightarrow> nat \<Rightarrow> cifs_ace" where
  "ace_in L m p =
     \<lparr>ace_type = m (p + off_ace_type L),
      ace_flags = m (p + off_ace_flags L),
      ace_size = get_le16 m (p + off_ace_size L),
      access_req = get_le32 m (p + off_ace_access_req L),
      ace_sid = sid_in L m (p + off_ace_sid L)\<rparr>"

definition acl_in :: "sd_layout \<Rightarrow> sd_bytes \<Rightarrow> nat \<Rightarrow> cifs_acl" where
  "acl_in L m p =
     \<lparr>acl_revision = get_le16 m (p + off_acl_revision L),
      acl_size = get_le16 m (p + off_acl_size L),
      num_aces = get_le32 m (p + off_acl_num_aces L)\<rparr>"

definition sd_view :: "sd_layout \<Rightarrow> sd_bytes \<Rightarrow> sd_mem" where
  "sd_view L m = \<lparr>acl_at = acl_in L m, ace_at = ace_in L m, sid_at = sid_in L m\<rparr>"

definition ntsd_in :: "sd_layout \<Rightarrow> sd_bytes \<Rightarrow> nat \<Rightarrow> cifs_ntsd" where
  "ntsd_in L m pntsd =
     \<lparr>osidoffset = get_le32 m (pntsd + off_osidoffset L),
      gsidoffset = get_le32 m (pntsd + off_gsidoffset L),
      sacloffset = get_le32 m (pntsd + off_sacloffset L),
      dacloffset = get_le32 m (pntsd + off_dacloffset L)\<rparr>"

subsection \<open>Copying a SID\<close>

text \<open>
  The loop over the \<open>NUM_AUTHS\<close> bytes of \<open>authority\<close> (\<open>dst\<close> and \<open>src\<close> are the two
  arrays, \<open>n\<close> rounds are to go), and the loop over \<open>sub_auth\<close>, which tests its index
  against the \<open>num_subauth\<close> it reads at \<open>n_at\<close> in every round. Both read the memory
  as the stores before have left it.
\<close>

fun copy_authority :: "sd_bytes \<Rightarrow> nat \<Rightarrow> nat \<Rightarrow> nat \<Rightarrow> nat \<Rightarrow> sd_bytes" where
  "copy_authority m dst src i 0 = m"
| "copy_authority m dst src i (Suc n) =
     copy_authority (m(dst + i := m (src + i))) dst src (Suc i) n"

function copy_sub_auth :: "sd_bytes \<Rightarrow> nat \<Rightarrow> nat \<Rightarrow> nat \<Rightarrow> nat \<Rightarrow> sd_bytes" where
  "copy_sub_auth m dst src n_at i =
     (if i < unat (m n_at)
      then copy_sub_auth (put_le32 m (dst + 4 * i) (get_le32 m (src + 4 * i))) dst src n_at
             (Suc i)
      else m)"
  by pat_completeness auto

termination
proof (relation "measure (\<lambda>(m, dst, src, n_at, i). 256 - i)")
  show "wf (measure (\<lambda>(m :: sd_bytes, dst :: nat, src :: nat, n_at :: nat, i). 256 - i))"
    by simp
next
  fix m :: sd_bytes and dst src n_at i :: nat
  assume "i < unat (m n_at)"
  moreover have "unat (m n_at) < 256"
    using unsigned_less [of "m n_at"] by simp
  ultimately show
    "((put_le32 m (dst + 4 * i) (get_le32 m (src + 4 * i)), dst, src, n_at, Suc i),
      (m, dst, src, n_at, i)) \<in> measure (\<lambda>(m, dst, src, n_at, i). 256 - i)"
    by simp
qed

declare copy_sub_auth.simps [simp del]

text \<open>\<open>cifs_copy_sid\<close>; \<open>min_t (u8, \<dots>)\<close> is the smaller of two bytes.\<close>

definition cifs_copy_sid :: "sd_layout \<Rightarrow> sd_bytes \<Rightarrow> nat \<Rightarrow> nat \<Rightarrow> sd_bytes" where
  "cifs_copy_sid L m dst src =
     (let m1 = m(dst + off_sid_revision L := m (src + off_sid_revision L));
          m2 = m1(dst + off_sid_num_subauth L :=
                 min (m1 (src + off_sid_num_subauth L)) (word_of_nat SID_MAX_SUB_AUTHORITIES));
          m3 = copy_authority m2 (dst + off_sid_authority L) (src + off_sid_authority L) 0
                 NUM_AUTHS
      in copy_sub_auth m3 (dst + off_sid_sub_auth L) (src + off_sid_sub_auth L)
           (dst + off_sid_num_subauth L) 0)"

subsection \<open>From an id to a SID\<close>

text \<open>
  The macros of the descriptor, which are not among the sources at hand, and what lies
  outside the file: the address of the constant \<open>sid_everyone\<close>, and the key service,
  which for the kind of id and the id answers with the length of the key's data and the
  address of its payload, or with an error (\<open>None\<close>).
\<close>

record sd_consts =
  SD_REVISION :: "16 word"
  SELF_RELATIVE :: "16 word"
  OWNER_DEFAULTED :: "16 word"
  GROUP_DEFAULTED :: "16 word"
  DACL_PRESENT :: "16 word"
  OWNER_SECINFO :: "32 word"
  GROUP_SECINFO :: "32 word"
  DACL_SECINFO :: "32 word"
  CIFS_SID_BASE_SIZE :: nat

record sd_env =
  sid_everyone_ptr :: nat
  request_key :: "sidtype \<Rightarrow> 32 word \<Rightarrow> (nat \<times> nat) option"

text \<open>
  \<open>id_to_sid\<close>: the return value and the memory. The description of the key,
  \<open>oi:\<close> or \<open>gi:\<close> and the id in decimal, is at most 13 characters long and fits the
  14 bytes it is printed to.
\<close>

definition id_to_sid ::
  "sd_consts \<Rightarrow> sd_layout \<Rightarrow> sd_env \<Rightarrow> sd_bytes \<Rightarrow> 32 word \<Rightarrow> sidtype \<Rightarrow> nat
     \<Rightarrow> int \<times> sd_bytes" where
  "id_to_sid K L E m cid t ssid =
     (case request_key E t cid of
        None \<Rightarrow> (- EINVAL, m)
      | Some (datalen, ksid) \<Rightarrow>
          if datalen < CIFS_SID_BASE_SIZE K then (- EIO, m)
          else
            (let ksid_size = CIFS_SID_BASE_SIZE K + unat (m (ksid + off_sid_num_subauth L)) * 4
             in if ksid_size > datalen then (- EIO, m)
                else (0, cifs_copy_sid L m ssid ksid)))"

subsection \<open>Mode to DACL, in memory\<close>

text \<open>
  \<open>fill_ace_for_sid\<close>: the memory after the call and the size of the ACE; \<open>None\<close> when
  \<open>psid\<close> is \<open>NULL\<close> and is read all the same. The stores are in the order of the source,
  and the SID is read from the memory as the stores before have left it. \<open>nmode\<close> is a
  \<open>__u64\<close> that is cut to \<open>umode_t\<close> on the way in; the size is computed in \<open>int\<close> and
  cut to \<open>__u16\<close>.
\<close>

definition fill_ace_for_sid ::
  "acl_consts \<Rightarrow> sd_layout \<Rightarrow> sd_bytes \<Rightarrow> nat \<Rightarrow> nat option \<Rightarrow> 64 word \<Rightarrow> umode_t
     \<Rightarrow> (sd_bytes \<times> 16 word) option" where
  "fill_ace_for_sid R L m pntace psid nmode bits =
     (let m1 = m(pntace + off_ace_type L := ACCESS_ALLOWED R);
          m2 = m1(pntace + off_ace_flags L := 0);
          access_req0 = mode_to_access_flags R (ucast nmode) bits;
          access_req' = (if access_req0 = 0 then SET_MINIMUM_RIGHTS R else access_req0);
          m3 = put_le32 m2 (pntace + off_ace_access_req L) access_req'
      in case psid of
           None \<Rightarrow> None
         | Some p \<Rightarrow>
             (let sid = pntace + off_ace_sid L;
                  m4 = m3(sid + off_sid_revision L := m3 (p + off_sid_revision L));
                  m5 = m4(sid + off_sid_num_subauth L := m4 (p + off_sid_num_subauth L));
                  m6 = copy_authority m5 (sid + off_sid_authority L) (p + off_sid_authority L)
                         0 NUM_AUTHS;
                  m7 = copy_sub_auth m6 (sid + off_sid_sub_auth L) (p + off_sid_sub_auth L)
                         (p + off_sid_num_subauth L) 0;
                  sz = (word_of_nat
                          (1 + 1 + 2 + 4 + 1 + 1 + 6 + unat (m7 (p + off_sid_num_subauth L)) * 4)
                        :: 16 word);
                  m8 = put_le16 m7 (pntace + off_ace_size L) sz
              in Some (m8, sz)))"

text \<open>
  \<open>set_chmod_dacl\<close>: three ACEs behind the header at \<open>pndacl\<close>, then the size and the
  number of ACEs in the header; \<open>size\<close> is a \<open>u16\<close>.
\<close>

definition set_chmod_dacl ::
  "acl_consts \<Rightarrow> sd_layout \<Rightarrow> sd_env \<Rightarrow> sd_bytes \<Rightarrow> nat \<Rightarrow> nat option \<Rightarrow> nat option
     \<Rightarrow> 64 word \<Rightarrow> (int \<times> sd_bytes) option" where
  "set_chmod_dacl R L E m pndacl pownersid pgrpsid nmode =
     (let pnndacl = pndacl + sizeof_cifs_acl;
          size0 = (0 :: 16 word)
      in case fill_ace_for_sid R L m (pnndacl + unat size0) pownersid nmode S_IRWXU of
           None \<Rightarrow> None
         | Some (m1, s1) \<Rightarrow>
             (let size1 = size0 + s1
              in case fill_ace_for_sid R L m1 (pnndacl + unat size1) pgrpsid nmode S_IRWXG of
                   None \<Rightarrow> None
                 | Some (m2, s2) \<Rightarrow>
                     (let size2 = size1 + s2
                      in case fill_ace_for_sid R L m2 (pnndacl + unat size2)
                                (Some (sid_everyone_ptr E)) nmode S_IRWXO of
                           None \<Rightarrow> None
                         | Some (m3, s3) \<Rightarrow>
                             (let size3 = size2 + s3;
                                  m4 = put_le16 m3 (pndacl + off_acl_size L)
                                         (size3 + word_of_nat sizeof_cifs_acl);
                                  m5 = put_le32 m4 (pndacl + off_acl_num_aces L) 3
                              in Some (0, m5)))))"

subsection \<open>Building the descriptor\<close>

text \<open>
  What \<open>build_sec_desc\<close> reads of the inode: the owner, the group (\<open>uid_valid\<close> and
  \<open>gid_valid\<close> refuse the id \<open>-1\<close>; the ids are those of the initial user namespace)
  and the mode. \<open>kmalloc\<close> answers with the address of a block or with \<open>NULL\<close>: the
  answers still to come are an explicit list, and a request made when the list is
  exhausted fails.
\<close>

record sd_inode =
  i_uid :: "32 word"
  i_gid :: "32 word"
  i_mode :: umode_t

definition uid_valid :: "32 word \<Rightarrow> bool" where
  "uid_valid uid = (uid \<noteq> - 1)"

definition gid_valid :: "32 word \<Rightarrow> bool" where
  "gid_valid gid = (gid \<noteq> - 1)"

type_synonym kheap = "nat option list"

fun kmalloc :: "kheap \<Rightarrow> nat option \<times> kheap" where
  "kmalloc [] = (None, [])"
| "kmalloc (p # ps) = (p, ps)"

text \<open>
  The block of \<open>build_sec_desc\<close> for the owner, when the id is valid: an early return
  with its value (\<open>Inl\<close>), or the memory and \<open>owner_sid_ptr\<close> (\<open>Inr\<close>). The block for
  the group is the same code for the group.
\<close>

definition build_owner_sid ::
  "sd_consts \<Rightarrow> sd_layout \<Rightarrow> sd_env \<Rightarrow> sd_bytes \<Rightarrow> nat \<Rightarrow> sd_inode \<Rightarrow> nat \<Rightarrow> kheap
     \<Rightarrow> (int \<times> sd_bytes \<times> kheap) + (sd_bytes \<times> nat option \<times> kheap)" where
  "build_owner_sid K L E m pntsd inode offset heap =
     (let uid = i_uid inode
      in if uid_valid uid then
           (let m1 = put_le32 m (pntsd + off_osidoffset L) (word_of_nat offset);
                owner_sid_ptr = pntsd + unat (get_le32 m1 (pntsd + off_osidoffset L))
            in case kmalloc heap of
                 (None, heap') \<Rightarrow> Inl (- ENOMEM, m1, heap')
               | (Some nowner_sid_ptr, heap') \<Rightarrow>
                   (case id_to_sid K L E m1 uid SIDOWNER nowner_sid_ptr of
                      (rc, m2) \<Rightarrow>
                        if rc \<noteq> 0 then Inl (rc, m2, heap')
                        else
                          (let m3 = cifs_copy_sid L m2 owner_sid_ptr nowner_sid_ptr;
                               m4 = put_le16 m3 (pntsd + off_ntsd_type L)
                                      (get_le16 m3 (pntsd + off_ntsd_type L)
                                         OR OWNER_DEFAULTED K)
                           in Inr (m4, Some owner_sid_ptr, heap'))))
         else Inr (m, None, heap))"

definition build_group_sid ::
  "sd_consts \<Rightarrow> sd_layout \<Rightarrow> sd_env \<Rightarrow> sd_bytes \<Rightarrow> nat \<Rightarrow> sd_inode \<Rightarrow> nat \<Rightarrow> kheap
     \<Rightarrow> (int \<times> sd_bytes \<times> kheap) + (sd_bytes \<times> nat option \<times> kheap)" where
  "build_group_sid K L E m pntsd inode offset heap =
     (let gid = i_gid inode
      in if gid_valid gid then
           (let m1 = put_le32 m (pntsd + off_gsidoffset L) (word_of_nat offset);
                group_sid_ptr = pntsd + unat (get_le32 m1 (pntsd + off_gsidoffset L))
            in case kmalloc heap of
                 (None, heap') \<Rightarrow> Inl (- ENOMEM, m1, heap')
               | (Some ngroup_sid_ptr, heap') \<Rightarrow>
                   (case id_to_sid K L E m1 gid SIDGROUP ngroup_sid_ptr of
                      (rc, m2) \<Rightarrow>
                        if rc \<noteq> 0 then Inl (rc, m2, heap')
                        else
                          (let m3 = cifs_copy_sid L m2 group_sid_ptr ngroup_sid_ptr;
                               m4 = put_le16 m3 (pntsd + off_ntsd_type L)
                                      (get_le16 m3 (pntsd + off_ntsd_type L)
                                         OR GROUP_DEFAULTED K)
                           in Inr (m4, Some group_sid_ptr, heap'))))
         else Inr (m, None, heap))"

text \<open>
  The block for the DACL: the memory and the offset after it, \<open>None\<close> when
  \<open>set_chmod_dacl\<close> reads through a \<open>NULL\<close> pointer. The value \<open>set_chmod_dacl\<close> returns
  is stored in \<open>rc\<close> and not looked at.
\<close>

definition build_dacl ::
  "acl_consts \<Rightarrow> sd_consts \<Rightarrow> sd_layout \<Rightarrow> sd_env \<Rightarrow> sd_bytes \<Rightarrow> nat \<Rightarrow> sd_inode \<Rightarrow> nat
     \<Rightarrow> nat option \<Rightarrow> nat option \<Rightarrow> (sd_bytes \<times> nat) option" where
  "build_dacl R K L E m pntsd inode offset owner_sid_ptr group_sid_ptr =
     (let nmode = i_mode inode;
          m1 = put_le32 m (pntsd + off_dacloffset L) (word_of_nat offset);
          dacloffset' = get_le32 m1 (pntsd + off_dacloffset L);
          dacl_ptr = pntsd + unat dacloffset';
          ndacloffset = sizeof_cifs_ntsd L;
          ndacl_ptr = pntsd + ndacloffset;
          m2 = put_le16 m1 (ndacl_ptr + off_acl_revision L)
                 (get_le16 m1 (dacl_ptr + off_acl_revision L));
          m3 = put_le16 m2 (ndacl_ptr + off_acl_size L) 0;
          m4 = put_le32 m3 (ndacl_ptr + off_acl_num_aces L) 0;
          m5 = put_le16 m4 (pntsd + off_ntsd_type L)
                 (get_le16 m4 (pntsd + off_ntsd_type L) OR DACL_PRESENT K)
      in case set_chmod_dacl R L E m5 ndacl_ptr owner_sid_ptr group_sid_ptr (ucast nmode) of
           None \<Rightarrow> None
         | Some (rc, m6) \<Rightarrow>
             Some (m6, offset + unat (get_le16 m6 (ndacl_ptr + off_acl_size L))))"

text \<open>
  \<open>build_sec_desc\<close>: the return value, the memory and the allocator after the call;
  \<open>None\<close> when a \<open>NULL\<close> pointer is read through.
\<close>

definition build_sec_desc ::
  "acl_consts \<Rightarrow> sd_consts \<Rightarrow> sd_layout \<Rightarrow> sd_env \<Rightarrow> sd_bytes \<Rightarrow> nat \<Rightarrow> 32 word \<Rightarrow> sd_inode
     \<Rightarrow> kheap \<Rightarrow> (int \<times> sd_bytes \<times> kheap) option" where
  "build_sec_desc R K L E m pntsd addition_info inode heap =
     (let m1 = put_le16 m (pntsd + off_ntsd_revision L) (SD_REVISION K);
          m2 = put_le16 m1 (pntsd + off_ntsd_type L) (SELF_RELATIVE K);
          offset0 = sizeof_cifs_ntsd L
      in case (if addition_info AND OWNER_SECINFO K \<noteq> 0
               then (case build_owner_sid K L E m2 pntsd inode offset0 heap of
                       Inl r \<Rightarrow> Inl r
                     | Inr (m', p, heap') \<Rightarrow> Inr (m', p, heap', offset0 + sizeof_cifs_sid L))
               else Inr (m2, None, heap, offset0)) of
           Inl r \<Rightarrow> Some r
         | Inr (m3, owner_sid_ptr, heap1, offset1) \<Rightarrow>
             (case (if addition_info AND GROUP_SECINFO K \<noteq> 0
                    then (case build_group_sid K L E m3 pntsd inode offset1 heap1 of
                            Inl r \<Rightarrow> Inl r
                          | Inr (m', p, heap') \<Rightarrow>
                              Inr (m', p, heap', offset1 + sizeof_cifs_sid L))
                    else Inr (m3, None, heap1, offset1)) of
                Inl r \<Rightarrow> Some r
              | Inr (m4, group_sid_ptr, heap2, offset2) \<Rightarrow>
                  if addition_info AND DACL_SECINFO K \<noteq> 0
                  then (case build_dacl R K L E m4 pntsd inode offset2 owner_sid_ptr
                               group_sid_ptr of
                          None \<Rightarrow> None
                        | Some (m5, offset3) \<Rightarrow> Some (int offset3, m5, heap2))
                  else Some (int offset2, m4, heap2)))"

subsection \<open>Encoding, then decoding\<close>

text \<open>
  The descriptor \<open>build_sec_desc\<close> leaves at \<open>pntsd\<close>, read back: by \<open>parse_sec_desc\<close>,
  with the length \<open>build_sec_desc\<close> returned; and its DACL alone by \<open>parse_dacl\<close>, at
  the address \<open>pdacl\<close> and against the SIDs at \<open>powner\<close> and \<open>pgroup\<close>.
\<close>

definition built_length :: "(int \<times> sd_bytes \<times> kheap) option \<Rightarrow> int option" where
  "built_length r = map_option fst r"

definition parse_built ::
  "acl_consts \<Rightarrow> sd_layout \<Rightarrow> (cifs_sid \<Rightarrow> sidtype \<Rightarrow> 32 word option) \<Rightarrow> nat \<Rightarrow> cifsd_fattr
     \<Rightarrow> (int \<times> sd_bytes \<times> kheap) option \<Rightarrow> (int \<times> cifsd_fattr) option" where
  "parse_built R L idmap pntsd fattr r =
     (case r of
        None \<Rightarrow> None
      | Some (len, m, heap) \<Rightarrow>
          Some (parse_sec_desc R idmap (sd_view L m) pntsd (ntsd_in L m pntsd) (nat len) fattr
                  []))"

definition parse_built_dacl ::
  "acl_consts \<Rightarrow> sd_layout \<Rightarrow> nat \<Rightarrow> nat \<Rightarrow> nat \<Rightarrow> nat \<Rightarrow> umode_t
     \<Rightarrow> (int \<times> sd_bytes \<times> kheap) option \<Rightarrow> umode_t option" where
  "parse_built_dacl R L pntsd pdacl powner pgroup mode r =
     (case r of
        None \<Rightarrow> None
      | Some (len, m, heap) \<Rightarrow>
          Some (parse_dacl R (sd_view L m) (Some pdacl) (pntsd + nat len) (sid_in L m powner)
                  (sid_in L m pgroup) mode []))"

text \<open>
  Example. The layout of the packed structures: the ACE as the sum
  \<open>1 + 1 + 2 + 4 + 1 + 1 + 6\<close> of \<open>fill_ace_for_sid\<close> lists its fields, the SID with its
  8 bytes before the 15 sub-authorities, the descriptor header of 20 bytes. The macros
  with the values of the protocol. The memory: zero but for the constant \<open>sid_everyone\<close>
  at address 256 and the payloads of two keys, S-1-5-21-1000 at 512 for the user id 1000
  and S-1-5-21-513 at 640 for the group id 513. The inode of a file of that user and
  group with mode 0100644. The buffer of the descriptor is at address 4096, and the
  allocator hands out the block at 1024 twice.
\<close>

definition cifs_layout :: sd_layout where
  "cifs_layout =
     \<lparr>sizeof_cifs_ntsd = 20, sizeof_cifs_sid = 68,
      off_ntsd_revision = 0, off_ntsd_type = 2, off_osidoffset = 4, off_gsidoffset = 8,
      off_sacloffset = 12, off_dacloffset = 16,
      off_sid_revision = 0, off_sid_num_subauth = 1, off_sid_authority = 2,
      off_sid_sub_auth = 8,
      off_acl_revision = 0, off_acl_size = 2, off_acl_num_aces = 4,
      off_ace_type = 0, off_ace_flags = 1, off_ace_size = 2, off_ace_access_req = 4,
      off_ace_sid = 8\<rparr>"

definition cifs_sd_consts :: sd_consts where
  "cifs_sd_consts =
     \<lparr>SD_REVISION = 1, SELF_RELATIVE = 0x8000, OWNER_DEFAULTED = 1, GROUP_DEFAULTED = 2,
      DACL_PRESENT = 4, OWNER_SECINFO = 1, GROUP_SECINFO = 2, DACL_SECINFO = 4,
      CIFS_SID_BASE_SIZE = 8\<rparr>"

definition keys_example :: sd_env where
  "keys_example =
     \<lparr>sid_everyone_ptr = 256,
      request_key = (\<lambda>t cid. if t = SIDOWNER \<and> cid = 1000 then Some (16, 512)
                              else if t = SIDGROUP \<and> cid = 513 then Some (16, 640)
                              else None)\<rparr>"

definition memory_example :: sd_bytes where
  "memory_example =
     (\<lambda>a. 0)
       (256 := 1, 257 := 1, 263 := 1,
        512 := 1, 513 := 2, 519 := 5, 520 := 21, 524 := 0xE8, 525 := 3,
        640 := 1, 641 := 2, 647 := 5, 648 := 21, 652 := 1, 653 := 2)"

definition inode_644 :: sd_inode where
  "inode_644 = \<lparr>i_uid = 1000, i_gid = 513, i_mode = 0x81A4\<rparr>"

definition built_644 :: "(int \<times> sd_bytes \<times> kheap) option" where
  "built_644 =
     build_sec_desc cifs_rights cifs_sd_consts cifs_layout keys_example memory_example 4096 7
       inode_644 [Some 1024, Some 1024]"

section \<open>SMB1 commands: TRANS2 FIND_FIRST and FIND_NEXT\<close>

subsection \<open>The page of directory entries\<close>

text \<open>
  The sizes the enumeration computes with come from headers that are not among the
  sources at hand; they are parameters. \<open>ALIGN\<close> is the kernel's macro.
\<close>

record dir_consts =
  PAGE_SIZE :: int
  sizeof_smb_dirent :: int
  MAX_CIFS_LOOKUP_BUFFER_SIZE :: int
  sizeof_TRANSACTION2_RSP :: int
  sizeof_T2_FFIRST_RSP_PARMS :: int
  sizeof_T2_FNEXT_RSP_PARMS :: int
  sizeof_FILE_DIRECTORY_INFO :: int
  sizeof_FILE_FULL_DIRECTORY_INFO :: int
  sizeof_FILE_BOTH_DIRECTORY_INFO :: int
  sizeof_SEARCH_ID_FULL_DIR_INFO :: int
  sizeof_FILE_UNIX_INFO :: int

definition ALIGN :: "int \<Rightarrow> int \<Rightarrow> int" where
  "ALIGN x a = (x + (a - 1)) AND NOT (a - 1)"


text \<open>
  \<open>struct smb_dirent\<close>, and \<open>struct smb_readdir_data\<close>: \<open>dirent\<close> tells whether the
  pointer is to the page (\<open>False\<close>: it is \<open>NULL\<close>). The page itself is a store of
  entries by byte offset.
\<close>

record smb_dirent =
  de_ino :: nat
  de_offset :: int
  de_namelen :: int
  de_type :: nat
  de_name :: string

record smb_readdir_data =
  dirent :: bool
  used :: int
  full :: bool
  dirent_count :: int


subsection \<open>The host directory\<close>

text \<open>
  The open directory of the host: its entries in the order the filesystem lists them,
  the position among them, and the error it fails with, if any. \<open>iterate_dir\<close> is the
  kernel's: it fails with a negative code before any entry is passed on, or it passes
  the entries from the position on to the actor until the actor refuses one, leaves the
  position at the first entry that was not taken, and returns 0.
\<close>

record host_dirent =
  h_name :: string
  h_offset :: int
  h_ino :: nat
  h_type :: nat

record host_dir =
  d_entries :: "host_dirent list"
  d_pos :: nat
  d_err :: int




subsection \<open>One entry into the response\<close>

text \<open>
  What the enumeration asks of functions that are not among the sources at hand: the
  return value of the path lookup \<open>smb_kern_path\<close> for a name, the number of 16-bit
  units \<open>smbConvertToUTF16\<close> makes of a name, and \<open>strncasecmp\<close>.
\<close>

record dir_env =
  smb_kern_path :: "string \<Rightarrow> int"
  smbConvertToUTF16 :: "string \<Rightarrow> int"
  strncasecmp :: "string \<Rightarrow> string \<Rightarrow> int \<Rightarrow> int"








subsection \<open>The loop\<close>

text \<open>
  The directory File: the fields of \<open>struct cifsd_file\<close> the enumeration uses, the page
  its \<open>readdir_data.dirent\<close> points to, the open directory of the host behind \<open>filp\<close>, and
  whether \<open>close_id\<close> has been called on it.
\<close>

record cifsd_dir =
  readdir_data :: smb_readdir_data
  dirent_offset :: int
  dir_page :: "int \<Rightarrow> smb_dirent"
  dir_filp :: host_dir
  dir_closed :: bool





subsection \<open>The two commands\<close>








subsection \<open>What a batch holds\<close>

text \<open>
  The entry a host entry becomes in the page and the bytes it takes there; the size of
  its record in the response at a level with a fixed part of \<open>sz\<close> bytes; how many
  records of given sizes, in order, go into a buffer of \<open>len\<close> bytes; the records of
  given entries written one after the other from \<open>p\<close> on; and a stretch of the page that
  holds given entries one after the other from \<open>off\<close> up to \<open>e\<close>.
\<close>

definition dirent_of :: "host_dirent \<Rightarrow> smb_dirent" where
  "dirent_of e =
     \<lparr>de_ino = h_ino e, de_offset = h_offset e, de_namelen = int (length (h_name e)),
      de_type = h_type e, de_name = h_name e\<rparr>"

definition reclen_of :: "dir_consts \<Rightarrow> host_dirent \<Rightarrow> int" where
  "reclen_of K e = ALIGN (sizeof_smb_dirent K + int (length (h_name e))) 8"

definition record_size :: "dir_env \<Rightarrow> int \<Rightarrow> host_dirent \<Rightarrow> int" where
  "record_size E sz e = (sz - 1 + smbConvertToUTF16 E (h_name e) * 2 + 3) AND NOT 3"



fun laid_out ::
  "dir_consts \<Rightarrow> (int \<Rightarrow> smb_dirent) \<Rightarrow> int \<Rightarrow> host_dirent list \<Rightarrow> int \<Rightarrow> bool" where
  "laid_out K pg off [] e = (off = e)"
| "laid_out K pg off (x # xs) e =
     (pg off = dirent_of x \<and> laid_out K pg (off + reclen_of K x) xs e)"












definition plain_host :: dir_env where
  "plain_host =
     \<lparr>smb_kern_path = (\<lambda>n. 0), smbConvertToUTF16 = (\<lambda>n. int (length n) + 1),
      strncasecmp = (\<lambda>a b n. if take (nat n) a = take (nat n) b then 0 else 1)\<rparr>"

definition entry :: "string \<Rightarrow> nat \<Rightarrow> host_dirent" where
  "entry n i = \<lparr>h_name = n, h_offset = int i, h_ino = 100 + i, h_type = 8\<rparr>"

definition blank_dirent :: smb_dirent where
  "blank_dirent = \<lparr>de_ino = 0, de_offset = 0, de_namelen = 0, de_type = 0, de_name = []\<rparr>"

definition opened_dir :: "host_dirent list \<Rightarrow> cifsd_dir" where
  "opened_dir es =
     \<lparr>readdir_data = \<lparr>dirent = False, used = 0, full = False, dirent_count = 0\<rparr>,
      dirent_offset = 0, dir_page = (\<lambda>a. blank_dirent),
      dir_filp = \<lparr>d_entries = es, d_pos = 0, d_err = 0\<rparr>, dir_closed = False\<rparr>"

definition dir_abc :: cifsd_dir where
  "dir_abc = opened_dir [entry ''a'' 1, entry ''b'' 2, entry ''c'' 3]"

definition dir_alpha_bravo :: cifsd_dir where
  "dir_alpha_bravo = opened_dir [entry ''alpha'' 1, entry ''bravo'' 2]"

lemma chktkn_loop_tokens:
  "chktkn_loop s n = (if n \<in> set (tokens s) then 1 else - ENOENT)"
proof (induction s n rule: chktkn_loop.induct)
  case (1 dup str2)
  obtain tok rest where sp: "strsep dup chktkn_delims = (tok, rest)"
    by (cases "strsep dup chktkn_delims")
  have L: "chktkn_loop dup str2 =
      (if tok = str2 then 1
       else (case rest of None \<Rightarrow> - ENOENT | Some d \<Rightarrow> chktkn_loop d str2))"
    by (subst chktkn_loop.simps) (simp add: sp)
  have T: "tokens dup = (case rest of None \<Rightarrow> [tok] | Some r \<Rightarrow> tok # tokens r)"
    by (subst tokens.simps) (simp add: sp)
  show ?case
  proof (cases rest)
    case None
    then show ?thesis by (simp add: L T)
  next
    case (Some r)
    show ?thesis
    proof (cases "tok = str2")
      case True
      then show ?thesis by (simp add: L T Some)
    next
      case False
      have "chktkn_loop r str2 = (if str2 \<in> set (tokens r) then 1 else - ENOENT)"
        using "1.IH" [OF sp [symmetric] False Some] .
      then show ?thesis using False by (simp add: L T Some)
    qed
  qed
qed

lemma kalloc_ok: "allocs_succeed mem \<Longrightarrow> kalloc mem = (True, tl mem)"
  by (cases mem) (auto simp: allocs_succeed_def)

lemma chktkn_ok:
  "allocs_succeed mem \<Longrightarrow>
   chktkn l n mem =
     (case l of None \<Rightarrow> (0, mem)
      | Some s \<Rightarrow> (if n \<in> set (tokens s) then 1 else - ENOENT, tl mem))"
  by (cases l) (simp_all add: chktkn_def kalloc_ok chktkn_loop_tokens)


lemma chktkn_ok_fst:
  "allocs_succeed mem \<Longrightarrow>
   fst (chktkn l n mem) = (if user_in l n then 1 else if l = None then 0 else - ENOENT)"
  by (cases l) (simp_all add: chktkn_ok user_in_def)

lemma chktkn_ok_snd:
  "allocs_succeed mem \<Longrightarrow> allocs_succeed (snd (chktkn l n mem))"
  by (cases l; cases mem) (auto simp: chktkn_def allocs_succeed_def)


text \<open>
  C1. A share with no allow list and a non-empty deny list: a peer that is not in the
  deny list should be allowed. \<open>validate_host\<close> instead returns an error: with no
  allow list (\<open>NULL\<close>) the deny scan ends with \<open>-ENOENT\<close>, which is taken for an
  allocation failure and returned as \<open>-ENOMEM\<close>; with an empty allow list (\<open>""\<close>) the
  allow scan itself ends with \<open>-ENOENT\<close> and the peer is refused with \<open>-EACCES\<close>.
\<close>

theorem validate_host_deny_only_unlisted_peer:
  "validate_host ''10.0.0.2'' share_deny_only [] = (- ENOMEM, [])
   \<and> validate_host ''10.0.0.2'' share_deny_only_empty_allow [] = (- EACCES, [])"
  by code_simp

text \<open>
  C8 as stated fails on a share without a path (IPC$): the user check returns 1 before
  any list is read, also for a user named in \<open>invalid users\<close>.
\<close>

theorem validate_usr_ipc_counterexample:
  "\<not> guestok (config share_ipc)
   \<and> user_in (invalid_users (config share_ipc)) ''bob''
   \<and> fst (validate_usr ''bob'' share_ipc False []) = 1"
  by code_simp

text \<open>
  C8, amended. For a share that has a path, with guest access not enabled and the list
  duplications succeeding: a user in \<open>invalid users\<close> is refused with \<open>-EACCES\<close> and the
  caller's flag is left as it was; otherwise the flag becomes the share's
  \<open>writeable = 1\<close>, cleared for a user in the read list, then set for a user in the write
  list, and the user is refused with \<open>-ENOENT\<close> exactly when \<open>valid users\<close> is configured
  and does not name the user.
\<close>

theorem validate_usr_lists:
  assumes "path share \<noteq> None" and "\<not> guestok (config share)" and "allocs_succeed mem"
  shows "fst (validate_usr name share cw mem) =
           (if user_in (invalid_users (config share)) name then - EACCES
            else if valid_users (config share) = None
                    \<or> user_in (valid_users (config share)) name then 1
            else - ENOENT)
       \<and> fst (snd (validate_usr name share cw mem)) =
           (if user_in (invalid_users (config share)) name then cw
            else if user_in (write_list (config share)) name then True
            else if user_in (read_list (config share)) name then False
            else writeable share = 1)"
proof -
  obtain r1 m1 where c1: "chktkn (invalid_users (config share)) name mem = (r1, m1)"
    by (cases "chktkn (invalid_users (config share)) name mem")
  have r1: "r1 = (if user_in (invalid_users (config share)) name then 1
                  else if invalid_users (config share) = None then 0 else - ENOENT)"
    using chktkn_ok_fst [OF assms(3), of "invalid_users (config share)" name] by (simp add: c1)
  have m1: "allocs_succeed m1"
    using chktkn_ok_snd [OF assms(3), of "invalid_users (config share)" name] by (simp add: c1)
  obtain r2 m2 where c2: "chktkn (read_list (config share)) name m1 = (r2, m2)"
    by (cases "chktkn (read_list (config share)) name m1")
  have r2: "r2 = (if user_in (read_list (config share)) name then 1
                  else if read_list (config share) = None then 0 else - ENOENT)"
    using chktkn_ok_fst [OF m1, of "read_list (config share)" name] by (simp add: c2)
  have m2: "allocs_succeed m2"
    using chktkn_ok_snd [OF m1, of "read_list (config share)" name] by (simp add: c2)
  obtain r3 m3 where c3: "chktkn (write_list (config share)) name m2 = (r3, m3)"
    by (cases "chktkn (write_list (config share)) name m2")
  have r3: "r3 = (if user_in (write_list (config share)) name then 1
                  else if write_list (config share) = None then 0 else - ENOENT)"
    using chktkn_ok_fst [OF m2, of "write_list (config share)" name] by (simp add: c3)
  have m3: "allocs_succeed m3"
    using chktkn_ok_snd [OF m2, of "write_list (config share)" name] by (simp add: c3)
  obtain r4 m4 where c4: "chktkn (valid_users (config share)) name m3 = (r4, m4)"
    by (cases "chktkn (valid_users (config share)) name m3")
  have r4: "r4 = (if user_in (valid_users (config share)) name then 1
                  else if valid_users (config share) = None then 0 else - ENOENT)"
    using chktkn_ok_fst [OF m3, of "valid_users (config share)" name] by (simp add: c4)
  have nz: "- ENOENT \<noteq> - ENOMEM" "\<not> - ENOENT > 0" "- ENOMEM \<noteq> (1::int)" "(0::int) \<noteq> - ENOMEM"
    by (simp_all add: ENOENT_def ENOMEM_def)
  obtain pth where pth: "path share = Some pth" using assms(1) by auto
  have g: "guestok (config share) = False" using assms(2) by simp
  define W where "W = (if r3 > 0 then True else if r2 > 0 then False else writeable share = 1)"
  have vu: "validate_usr name share cw mem =
      (if r1 = - ENOMEM then (- ENOMEM, cw, m1)
       else if r1 > 0 then (- EACCES, cw, m1)
       else (if valid_users (config share) = None then (1, W, m3) else (r4, W, m4)))"
    by (simp add: validate_usr_def Let_def pth g c1 c2 c3 c4 W_def split del: if_split
          cong del: if_weak_cong)
  have W: "W = (if user_in (write_list (config share)) name then True
            else if user_in (read_list (config share)) name then False
            else writeable share = 1)"
    unfolding W_def r2 r3 using nz by (simp split: if_splits)
  show ?thesis
  proof (cases "user_in (invalid_users (config share)) name")
    case True
    then have "r1 = 1" using r1 by simp
    then show ?thesis using True nz by (simp add: vu)
  next
    case False
    then have r1': "r1 \<noteq> - ENOMEM" "\<not> r1 > 0" using r1 nz by (simp_all split: if_splits)
    have vu': "validate_usr name share cw mem =
       (if valid_users (config share) = None then (1, W, m3) else (r4, W, m4))"
      using r1' by (simp add: vu)
    show ?thesis
    proof (cases "valid_users (config share)")
      case None
      then show ?thesis using False by (simp add: vu' W)
    next
      case (Some v)
      then have "r4 = (if user_in (valid_users (config share)) name then 1 else - ENOENT)"
        using r4 by simp
      then show ?thesis using False Some by (simp add: vu' W)
    qed
  qed
qed

theorem validate_usr_lists_witness:
  "path share_lists \<noteq> None \<and> \<not> guestok (config share_lists) \<and> allocs_succeed []
   \<and> fst (validate_usr ''bob'' share_lists False []) = 1
   \<and> fst (snd (validate_usr ''bob'' share_lists False [])) = True"
proof -
  have h1: "path share_lists \<noteq> None" by (simp add: share_lists_def)
  have h2: "\<not> guestok (config share_lists)" by (simp add: share_lists_def)
  have h3: "allocs_succeed []" by (simp add: allocs_succeed_def)
  have u: "\<not> user_in (invalid_users (config share_lists)) ''bob''"
      "user_in (valid_users (config share_lists)) ''bob''"
      "user_in (write_list (config share_lists)) ''bob''"
    by code_simp+
  show ?thesis
    using validate_usr_lists [OF h1 h2 h3, of "''bob''" False] h1 h2 h3 u by simp
qed

section \<open>Properties of the file-id table\<close>

lemma find_next_zero_bit_found:
  assumes "cifsd_find_next_zero_bit bm sz off < sz"
  shows "off \<le> cifsd_find_next_zero_bit bm sz off"
    and "\<not> bm (cifsd_find_next_zero_bit bm sz off)"
proof -
  obtain i where f: "List.find (\<lambda>i. \<not> bm i) [off..<sz] = Some i"
    using assms by (cases "List.find (\<lambda>i. \<not> bm i) [off..<sz]")
      (auto simp: cifsd_find_next_zero_bit_def)
  then have r: "cifsd_find_next_zero_bit bm sz off = i"
    by (simp add: cifsd_find_next_zero_bit_def)
  from f obtain k where "k < length [off..<sz]" "\<not> bm ([off..<sz] ! k)" "i = [off..<sz] ! k"
    unfolding find_Some_iff by blast
  then have "off \<le> i" "\<not> bm i" by auto
  then show "off \<le> cifsd_find_next_zero_bit bm sz off"
    and "\<not> bm (cifsd_find_next_zero_bit bm sz off)" using r by auto
qed

lemma grow_fidtable_start_pos:
  "grow_fidtable K ft num mem = (1, ft', mem') \<Longrightarrow> start_pos ft' = start_pos ft"
  by (auto simp: grow_fidtable_def Let_def alloc_fidtable_def copy_fidtable_def
        EMFILE_def ENOMEM_def split: if_splits prod.splits option.splits bool.splits)

lemma grow_fidtable_err:
  "grow_fidtable K ft num mem = (err, ft', mem') \<Longrightarrow> err = 1 \<or> err < 0"
  by (auto simp: grow_fidtable_def Let_def EMFILE_def ENOMEM_def
        split: if_splits prod.splits option.splits)

lemma get_unused_id_range:
  "0 < max_fids ft \<Longrightarrow> cifsd_get_unused_id K ft mem = (fid, ft1, mem1) \<Longrightarrow> 0 \<le> fid \<Longrightarrow>
   start_pos ft \<le> nat fid \<and> nat fid < max_fids ft1 \<and> max_fids ft \<le> max_fids ft1
   \<and> cifsd_bitmap ft1 (nat fid)"
proof (induction K ft mem arbitrary: fid ft1 mem1 rule: cifsd_get_unused_id.induct)
  case (1 K ft mem)
  define i where "i = cifsd_find_next_zero_bit (cifsd_bitmap ft) (max_fids ft) (start_pos ft)"
  show ?case
  proof (cases "i > max_fids ft - 1")
    case False
    then have lt: "i < max_fids ft" using "1.prems"(1) by simp
    have res: "fid = int i"
      "ft1 = ft\<lparr>cifsd_bitmap := cifsd_set_bit i (cifsd_bitmap ft), start_pos := i + 1\<rparr>"
      using "1.prems"(2) False
      by (subst (asm) cifsd_get_unused_id.simps, simp add: Let_def i_def [symmetric])+
    from find_next_zero_bit_found [of "cifsd_bitmap ft" "max_fids ft" "start_pos ft"] lt
    have "start_pos ft \<le> i" "\<not> cifsd_bitmap ft i" by (simp_all add: i_def)
    then show ?thesis using lt res by (simp add: cifsd_set_bit_def)
  next
    case True
    obtain err ft' mem' where g: "grow_fidtable K ft i mem = (err, ft', mem')"
      by (cases "grow_fidtable K ft i mem")
    have step: "cifsd_get_unused_id K ft mem =
        (if err = 1 then cifsd_get_unused_id K ft' mem' else (err, ft', mem'))"
      using True g by (subst cifsd_get_unused_id.simps) (simp add: Let_def i_def [symmetric])
    have e1: "err = 1"
    proof (rule ccontr)
      assume "err \<noteq> 1"
      then have "err < 0" using grow_fidtable_err [OF g] by simp
      moreover have "fid = err" using step \<open>err \<noteq> 1\<close> "1.prems"(2) by simp
      ultimately show False using "1.prems"(3) by simp
    qed
    have big: "max_fids ft \<le> i" using True by simp
    have gr: "max_fids ft < max_fids ft'"
      using grow_fidtable_grows(1) [OF g [unfolded e1] big] .
    have sp: "start_pos ft' = start_pos ft"
      using grow_fidtable_start_pos [OF g [unfolded e1]] .
    have rec: "cifsd_get_unused_id K ft' mem' = (fid, ft1, mem1)"
      using step e1 "1.prems"(2) by simp
    have IH: "start_pos ft' \<le> nat fid \<and> nat fid < max_fids ft1 \<and> max_fids ft' \<le> max_fids ft1
       \<and> cifsd_bitmap ft1 (nat fid)"
      using "1.IH" [OF i_def True g [symmetric] refl e1 _ rec "1.prems"(3)] gr by simp
    show ?thesis using IH gr sp by simp
  qed
qed


lemma grow_fidtable_slots:
  "grow_fidtable K ft num mem = (err, ft', mem') \<Longrightarrow>
   max_fids ft \<le> max_fids ft' \<and> (\<forall>i < max_fids ft. fileid ft' i = fileid ft i)"
  by (auto simp: grow_fidtable_def Let_def alloc_fidtable_def copy_fidtable_def
        split: if_splits prod.splits option.splits bool.splits)

lemma get_unused_id_slots:
  "cifsd_get_unused_id K ft mem = (r, ft1, mem1) \<Longrightarrow>
   max_fids ft \<le> max_fids ft1 \<and> (\<forall>i < max_fids ft. fileid ft1 i = fileid ft i)"
proof (induction K ft mem arbitrary: r ft1 mem1 rule: cifsd_get_unused_id.induct)
  case (1 K ft mem)
  define i where "i = cifsd_find_next_zero_bit (cifsd_bitmap ft) (max_fids ft) (start_pos ft)"
  show ?case
  proof (cases "i > max_fids ft - 1")
    case False
    have "ft1 = ft\<lparr>cifsd_bitmap := cifsd_set_bit i (cifsd_bitmap ft), start_pos := i + 1\<rparr>"
      using "1.prems" False
      by (subst (asm) cifsd_get_unused_id.simps) (simp add: Let_def i_def [symmetric])
    then show ?thesis by simp
  next
    case True
    obtain err ft' mem' where g: "grow_fidtable K ft i mem = (err, ft', mem')"
      by (cases "grow_fidtable K ft i mem")
    have step: "cifsd_get_unused_id K ft mem =
        (if err = 1 then cifsd_get_unused_id K ft' mem' else (err, ft', mem'))"
      using True g by (subst cifsd_get_unused_id.simps) (simp add: Let_def i_def [symmetric])
    note gs = grow_fidtable_slots [OF g]
    show ?thesis
    proof (cases "err = 1")
      case False
      then have "ft1 = ft'" using step "1.prems" by simp
      then show ?thesis using gs by simp
    next
      case e: True
      have rec: "cifsd_get_unused_id K ft' mem' = (r, ft1, mem1)"
        using step e "1.prems" by simp
      have IH: "max_fids ft' \<le> max_fids ft1 \<and> (\<forall>i < max_fids ft'. fileid ft1 i = fileid ft' i)"
        using "1.IH" [OF i_def True g [symmetric] refl e rec] .
      show ?thesis using IH gs by auto
    qed
  qed
qed

lemma same_object [simp]:
  "\<exists>c. (f :: cifsd_file) = f\<lparr>f_count := c\<rparr>"
  "\<exists>c. (f :: cifsd_file)\<lparr>f_state := st\<rparr> = f\<lparr>f_count := c, f_state := st\<rparr>"
  by (rule exI [of _ "f_count f"], simp)+

lemma same_object_count [simp]:
  "\<exists>c. (f :: cifsd_file)\<lparr>f_count := a\<rparr> = f\<lparr>f_count := c\<rparr>"
  by (rule exI [of _ a]) simp

lemma fid_step_keeps_bound:
  assumes "fid_step K op (ft, mem) = Inr (ft', mem')"
    and "fileid ft fid = Some f" and "fid < max_fids ft" and "\<not> unbinds fid op"
  shows "fid < max_fids ft'
     \<and> (\<exists>c. fileid ft' fid =
            Some (f\<lparr>f_count := c,
                   f_state := (if marks_freeing fid op then FP_FREEING else f_state f)\<rparr>))"
proof (cases op)
  case OP_ALLOC
  obtain r where "cifsd_get_unused_id K ft mem = (r, ft', mem')"
    using assms(1) OP_ALLOC by (auto split: prod.splits)
  from get_unused_id_slots [OF this] assms(2,3) have "fid < max_fids ft'" "fileid ft' fid = Some f"
    by auto
  then show ?thesis using OP_ALLOC by (auto intro: exI [of _ "f_count f"])
next
  case (OP_INSERT t j fl)
  then show ?thesis using assms
    by (auto simp: insert_id_in_fidtable_def Let_def intro: exI [of _ "f_count f"]
        split: if_splits prod.splits bool.splits sum.splits)
next
  case (OP_LOOKUP j)
  then show ?thesis using assms
    by (auto simp: get_id_from_fidtable_def fp_get_def intro: exI [of _ "f_count f"]
        exI [of _ "f_count f + 1"] split: if_splits option.splits)
next
  case (OP_FP_PUT j)
  then show ?thesis using assms
    by (auto simp: fp_put_def intro: exI [of _ "f_count f"] exI [of _ "f_count f - 1"]
        split: if_splits option.splits)
next
  case (OP_FREEING j)
  then show ?thesis using assms
    by (auto intro: exI [of _ "f_count f"] split: if_splits option.splits)
next
  case (OP_DELETE j rel)
  then show ?thesis using assms
    by (auto simp: delete_id_from_fidtable_def Let_def intro: exI [of _ "f_count f"]
        split: if_splits option.splits sum.splits)
next
  case (OP_CLOSE i)
  then show ?thesis using assms
    by (auto simp: cifsd_close_id_def intro: exI [of _ "f_count f"] split: if_splits)
qed


lemma fid_run_keeps_bound:
  "fid_run K ops (ft, mem) = Inr (ft', mem') \<Longrightarrow> fileid ft fid = Some f \<Longrightarrow>
   fid < max_fids ft \<Longrightarrow> stays_bound fid ops \<Longrightarrow>
   fid < max_fids ft'
     \<and> (\<exists>c. fileid ft' fid =
            Some (f\<lparr>f_count := c,
                   f_state := (if list_ex (marks_freeing fid) ops then FP_FREEING
                               else f_state f)\<rparr>))"
proof (induction ops arbitrary: ft mem f)
  case Nil
  then show ?case by simp
next
  case (Cons op ops)
  from Cons.prems(1) obtain ft1 mem1 where
    st: "fid_step K op (ft, mem) = Inr (ft1, mem1)"
    and rn: "fid_run K ops (ft1, mem1) = Inr (ft', mem')"
    by (auto split: sum.splits)
  from Cons.prems(4) have k: "\<not> unbinds fid op" and ks: "stays_bound fid ops"
    by (simp_all add: stays_bound_def)
  from fid_step_keeps_bound [OF st Cons.prems(2) Cons.prems(3) k] obtain c1 where
    lt1: "fid < max_fids ft1"
    and s1: "fileid ft1 fid =
       Some (f\<lparr>f_count := c1,
              f_state := (if marks_freeing fid op then FP_FREEING else f_state f)\<rparr>)"
    by blast
  from Cons.IH [OF rn s1 lt1 ks] obtain c where
    lt: "fid < max_fids ft'"
    and sl: "fileid ft' fid =
       Some (f\<lparr>f_count := c1,
              f_state := (if marks_freeing fid op then FP_FREEING else f_state f)\<rparr>
            \<lparr>f_count := c,
              f_state := (if list_ex (marks_freeing fid) ops then FP_FREEING
                          else f_state (f\<lparr>f_count := c1,
                              f_state := (if marks_freeing fid op then FP_FREEING
                                          else f_state f)\<rparr>))\<rparr>)"
    by blast
  have "fileid ft' fid =
      Some (f\<lparr>f_count := c,
             f_state := (if list_ex (marks_freeing fid) (op # ops) then FP_FREEING
                         else f_state f)\<rparr>)"
    using sl by simp
  then show ?case using lt by blast
qed

lemma fid_step_keeps_unbound:
  assumes "fid_step K op (ft, mem) = Inr (ft', mem')"
    and "fileid ft fid = None" and "fid < max_fids ft" and "\<not> binds fid op"
  shows "fid < max_fids ft' \<and> fileid ft' fid = None"
proof (cases op)
  case OP_ALLOC
  obtain r where "cifsd_get_unused_id K ft mem = (r, ft', mem')"
    using assms(1) OP_ALLOC by (auto split: prod.splits)
  from get_unused_id_slots [OF this] assms(2,3) show ?thesis by auto
next
  case (OP_INSERT t j fl)
  then show ?thesis using assms
    by (auto simp: insert_id_in_fidtable_def Let_def
        split: if_splits prod.splits bool.splits sum.splits)
next
  case (OP_LOOKUP j)
  then show ?thesis using assms
    by (auto simp: get_id_from_fidtable_def fp_get_def split: if_splits option.splits)
next
  case (OP_FP_PUT j)
  then show ?thesis using assms by (auto split: if_splits option.splits)
next
  case (OP_FREEING j)
  then show ?thesis using assms by (auto split: if_splits option.splits)
next
  case (OP_DELETE j rel)
  then show ?thesis using assms
    by (auto simp: delete_id_from_fidtable_def Let_def split: if_splits option.splits sum.splits)
next
  case (OP_CLOSE i)
  then show ?thesis using assms by (auto simp: cifsd_close_id_def split: if_splits)
qed

lemma fid_run_keeps_unbound:
  "fid_run K ops (ft, mem) = Inr (ft', mem') \<Longrightarrow> fileid ft fid = None \<Longrightarrow>
   fid < max_fids ft \<Longrightarrow> stays_unbound fid ops \<Longrightarrow>
   fid < max_fids ft' \<and> fileid ft' fid = None"
proof (induction ops arbitrary: ft mem)
  case Nil
  then show ?case by simp
next
  case (Cons op ops)
  from Cons.prems(1) obtain ft1 mem1 where
    st: "fid_step K op (ft, mem) = Inr (ft1, mem1)"
    and rn: "fid_run K ops (ft1, mem1) = Inr (ft', mem')"
    by (auto split: sum.splits)
  from Cons.prems(4) have k: "\<not> binds fid op" and ks: "stays_unbound fid ops"
    by (simp_all add: stays_unbound_def)
  from fid_step_keeps_unbound [OF st Cons.prems(2) Cons.prems(3) k]
  have "fid < max_fids ft1" "fileid ft1 fid = None" by simp_all
  then show ?case using Cons.IH [OF rn _ _ ks] by simp
qed

lemma bound_id_lookup:
  assumes nonempty: "0 < max_fids ft"
    and start: "CIFSD_START_FID K \<le> start_pos ft"
    and alloc: "cifsd_get_unused_id K ft mem = (fid, ft1, mem1)"
    and ok: "0 \<le> fid"
    and bind: "insert_id_in_fidtable ft1 tree_id (nat fid) fl mem1 = Inr (Some fp, ft2, mem2)"
    and run: "fid_run K ops (ft2, mem2) = Inr (ft', mem')"
    and keep: "stays_bound (nat fid) ops"
  shows "CIFSD_START_FID K \<le> nat fid \<and> nat fid < max_fids ft2 \<and> nat fid < max_fids ft'
       \<and> fp = zeroed_file\<lparr>filp := fl, tid := tree_id, f_state := FP_NEW\<rparr>
       \<and> get_id_from_fidtable K ft2 (nat fid) =
             (Some (fp\<lparr>f_count := 1\<rparr>),
              ft2\<lparr>fileid := (fileid ft2)(nat fid := Some (fp\<lparr>f_count := 1\<rparr>))\<rparr>)
       \<and> (\<exists>c. fileid ft' (nat fid) =
                Some (fp\<lparr>f_count := c,
                        f_state := (if list_ex (marks_freeing (nat fid)) ops then FP_FREEING
                                    else FP_NEW)\<rparr>)
             \<and> get_id_from_fidtable K ft' (nat fid) =
                 (if list_ex (marks_freeing (nat fid)) ops then (None, ft')
                  else (Some (fp\<lparr>f_count := c + 1\<rparr>),
                        ft'\<lparr>fileid := (fileid ft')
                              (nat fid := Some (fp\<lparr>f_count := c + 1\<rparr>))\<rparr>)))
       \<and> delete_id_from_fidtable ft' (nat fid) True =
             Inr (ft'\<lparr>fileid := (fileid ft')(nat fid := None)\<rparr>)
       \<and> (\<forall>rel ftd ops2 ft3 mem3.
             delete_id_from_fidtable ft' (nat fid) rel = Inr ftd
             \<and> fid_run K ops2 (ftd, mem') = Inr (ft3, mem3) \<and> stays_unbound (nat fid) ops2
             \<longrightarrow> get_id_from_fidtable K ft3 (nat fid) = (None, ft3))
       \<and> (\<forall>j. j < CIFSD_START_FID K \<or> max_fids ft' \<le> j \<longrightarrow>
              get_id_from_fidtable K ft' j = (None, ft'))"
proof -
  have r: "start_pos ft \<le> nat fid" "nat fid < max_fids ft1"
    using get_unused_id_range [OF nonempty alloc ok] by simp_all
  have b: "ft2 = ft1\<lparr>fileid := (fileid ft1)(nat fid := Some fp)\<rparr>"
      "fp = zeroed_file\<lparr>filp := fl, tid := tree_id, f_state := FP_NEW\<rparr>"
    using bind
    by (auto simp: insert_id_in_fidtable_def Let_def split: prod.splits bool.splits if_splits)
  have st: "f_state fp = FP_NEW" and cnt: "f_count fp = 0"
    by (simp_all add: b(2) zeroed_file_def)
  have slot2: "fileid ft2 (nat fid) = Some fp" and lt2: "nat fid < max_fids ft2"
    using b(1) r by simp_all
  have ge: "CIFSD_START_FID K \<le> nat fid" using r start by simp
  from fid_run_keeps_bound [OF run slot2 lt2 keep] obtain c where
    lt: "nat fid < max_fids ft'"
    and slot: "fileid ft' (nat fid) =
        Some (fp\<lparr>f_count := c,
               f_state := (if list_ex (marks_freeing (nat fid)) ops then FP_FREEING
                           else FP_NEW)\<rparr>)"
    unfolding st by blast
  have inr: "\<not> (nat fid < CIFSD_START_FID K \<or> nat fid > max_fids ft2 - 1)"
      "\<not> (nat fid < CIFSD_START_FID K \<or> nat fid > max_fids ft' - 1)"
    using ge lt lt2 by auto
  have c1: "get_id_from_fidtable K ft2 (nat fid) =
             (Some (fp\<lparr>f_count := 1\<rparr>),
              ft2\<lparr>fileid := (fileid ft2)(nat fid := Some (fp\<lparr>f_count := 1\<rparr>))\<rparr>)"
    using inr(1) slot2 st cnt by (simp add: get_id_from_fidtable_def fp_get_def)
  have fpn: "fp\<lparr>f_count := x, f_state := FP_NEW\<rparr> = fp\<lparr>f_count := x\<rparr>" for x
    using st by (cases fp) simp
  have c2: "get_id_from_fidtable K ft' (nat fid) =
                 (if list_ex (marks_freeing (nat fid)) ops then (None, ft')
                  else (Some (fp\<lparr>f_count := c + 1\<rparr>),
                        ft'\<lparr>fileid := (fileid ft')
                              (nat fid := Some (fp\<lparr>f_count := c + 1\<rparr>))\<rparr>))"
    using inr(2) by (simp add: get_id_from_fidtable_def fp_get_def slot fpn)
  have c3: "delete_id_from_fidtable ft' (nat fid) True =
             Inr (ft'\<lparr>fileid := (fileid ft')(nat fid := None)\<rparr>)"
    by (simp add: delete_id_from_fidtable_def slot Let_def)
  have c4: "get_id_from_fidtable K ft3 (nat fid) = (None, ft3)"
    if d: "delete_id_from_fidtable ft' (nat fid) rel = Inr ftd"
      and r2: "fid_run K ops2 (ftd, mem') = Inr (ft3, mem3)"
      and u: "stays_unbound (nat fid) ops2"
    for rel ftd ops2 ft3 mem3
  proof -
    from d have "ftd = ft'\<lparr>fileid := (fileid ft')(nat fid := None)\<rparr>"
      by (auto simp: delete_id_from_fidtable_def Let_def slot split: if_splits)
    then have "fileid ftd (nat fid) = None" "nat fid < max_fids ftd" using lt by simp_all
    from fid_run_keeps_unbound [OF r2 this u] show ?thesis
      by (simp add: get_id_from_fidtable_def)
  qed
  have c5: "\<forall>j. j < CIFSD_START_FID K \<or> max_fids ft' \<le> j \<longrightarrow>
              get_id_from_fidtable K ft' j = (None, ft')"
    using lt by (auto simp: get_id_from_fidtable_def)
  show ?thesis
    using ge lt2 lt b(2) c1 slot c2 c3 c4 c5 by blast
qed


lemma find_next_zero_bit_here:
  "off < sz \<Longrightarrow> \<not> bm off \<Longrightarrow> cifsd_find_next_zero_bit bm sz off = off"
  by (simp add: cifsd_find_next_zero_bit_def upt_conv_Cons)

lemma find_next_zero_bit_none:
  "sz \<le> off \<Longrightarrow> cifsd_find_next_zero_bit bm sz off = sz"
  by (simp add: cifsd_find_next_zero_bit_def)

lemma alloc_in_nearly_full_table:
  "cifsd_get_unused_id consts64 nearly_full_table [] =
     (63, nearly_full_table\<lparr>cifsd_bitmap := cifsd_set_bit 63 (cifsd_bitmap nearly_full_table),
                             start_pos := 64\<rparr>, [])"
proof -
  have f: "cifsd_find_next_zero_bit (cifsd_bitmap nearly_full_table)
             (max_fids nearly_full_table) (start_pos nearly_full_table) = 63"
    by (simp add: nearly_full_table_def find_next_zero_bit_here)
  show ?thesis
    by (subst cifsd_get_unused_id.simps) (simp add: f Let_def, simp add: nearly_full_table_def)
qed

lemma bind_63:
  "insert_id_in_fidtable
     (nearly_full_table\<lparr>cifsd_bitmap := cifsd_set_bit 63 (cifsd_bitmap nearly_full_table),
                         start_pos := 64\<rparr>) 5 (nat 63) 42 [] =
   Inr (Some file_42, table_63_bound, [])"
  by (simp add: insert_id_in_fidtable_def Let_def file_42_def table_63_bound_def
      nearly_full_table_def)

lemma grow_table_63:
  "grow_fidtable consts64 (table_63_bound\<lparr>fileid := (fileid table_63_bound)(63 := Some f)\<rparr>)
       64 [] =
     (1, \<lparr>max_fids = 128, fileid = (\<lambda>i. if i = 63 then Some f else None), start_pos = 64,
          cifsd_bitmap = (\<lambda>i. 1 \<le> i \<and> i < 64)\<rparr>, [])"
proof -
  have p: "roundup_pow_of_two (Suc 0) = 1"
    by (simp add: roundup_pow_of_two_def pow_of_two_from.simps)
  show ?thesis
    by (auto simp: grow_fidtable_def Let_def consts64_def p alloc_fidtable_def copy_fidtable_def
        table_63_bound_def nearly_full_table_def cifsd_set_bit_def fun_eq_iff)
qed

lemma alloc_grows_table_63:
  "cifsd_get_unused_id consts64
       (table_63_bound\<lparr>fileid := (fileid table_63_bound)(63 := Some f)\<rparr>) [] =
     (64, table_128 f, [])"
proof -
  define t where "t = table_63_bound\<lparr>fileid := (fileid table_63_bound)(63 := Some f)\<rparr>"
  define t' where "t' = \<lparr>max_fids = 128, fileid = (\<lambda>i. if i = 63 then Some f else None),
      start_pos = 64, cifsd_bitmap = (\<lambda>i. 1 \<le> i \<and> i < 64)\<rparr>"
  have m: "max_fids t = 64" "start_pos t = 64"
    by (simp_all add: t_def table_63_bound_def nearly_full_table_def)
  have f1: "cifsd_find_next_zero_bit (cifsd_bitmap t) 64 64 = 64"
    by (simp add: find_next_zero_bit_none)
  have g: "grow_fidtable consts64 t 64 [] = (1, t', [])"
    unfolding t_def t'_def by (rule grow_table_63)
  have s1: "cifsd_get_unused_id consts64 t [] = cifsd_get_unused_id consts64 t' []"
    by (subst cifsd_get_unused_id.simps) (simp add: f1 Let_def m g)
  have f2: "cifsd_find_next_zero_bit (cifsd_bitmap t') (max_fids t') (start_pos t') = 64"
    by (simp add: t'_def find_next_zero_bit_here)
  have s2: "cifsd_get_unused_id consts64 t' [] =
      (64, t'\<lparr>cifsd_bitmap := cifsd_set_bit 64 (cifsd_bitmap t'), start_pos := 65\<rparr>, [])"
    by (subst cifsd_get_unused_id.simps) (simp add: f2 Let_def, simp add: t'_def)
  have e: "t'\<lparr>cifsd_bitmap := cifsd_set_bit 64 (cifsd_bitmap t'), start_pos := 65\<rparr> = table_128 f"
    by (auto simp: t'_def table_128_def cifsd_set_bit_def fun_eq_iff)
  show ?thesis unfolding t_def [symmetric] s1 s2 e ..
qed

lemma table_63_bound_slot:
  "table_63_bound\<lparr>fileid := (fileid table_63_bound)(63 := Some file_42)\<rparr> = table_63_bound"
  by (simp add: table_63_bound_def)

lemma run_grow_lookup:
  "fid_run consts64 [OP_ALLOC, OP_LOOKUP 63] (table_63_bound, []) =
     Inr (table_128 (file_42\<lparr>f_count := 1\<rparr>), [])"
proof -
  have a: "cifsd_get_unused_id consts64 table_63_bound [] = (64, table_128 file_42, [])"
    using alloc_grows_table_63 [of file_42] by (simp add: table_63_bound_slot)
  have l: "snd (get_id_from_fidtable consts64 (table_128 file_42) 63) =
      table_128 (file_42\<lparr>f_count := 1\<rparr>)"
    by (auto simp: get_id_from_fidtable_def table_128_def consts64_def file_42_def
        zeroed_file_def fp_get_def fun_eq_iff)
  show ?thesis by (simp add: a l)
qed

lemma run_grow_freeing:
  "fid_run consts64 [OP_ALLOC, OP_FREEING 63] (table_63_bound, []) =
     Inr (table_128 (file_42\<lparr>f_state := FP_FREEING\<rparr>), [])"
proof -
  have a: "cifsd_get_unused_id consts64 table_63_bound [] = (64, table_128 file_42, [])"
    using alloc_grows_table_63 [of file_42] by (simp add: table_63_bound_slot)
  show ?thesis by (auto simp: a table_128_def fun_eq_iff)
qed


text \<open>
  C6. An id returned by \<open>cifsd_get_unused_id\<close> and bound by
  \<open>insert_id_in_fidtable\<close> lies in \<open>[CIFSD_START_FID, max_fids)\<close>, and looking it up
  right away returns the bound object with a reference count of 1. After any run of
  the table that does not unbind the id (allocations, with the table growing, bindings
  of other ids, lookups, references dropped, ids unbound and released) the slot still
  holds that object, only its reference count and its state changed: a lookup returns
  it with one reference more, unless the run has marked it \<open>FP_FREEING\<close>, when the
  lookup returns \<open>NULL\<close>. \<open>delete_id_from_fidtable\<close> then unbinds the id, and after it
  the lookup returns \<open>NULL\<close> for as long as the id is not bound again. A lookup of an id
  outside \<open>[CIFSD_START_FID, max_fids)\<close> returns \<open>NULL\<close>.
\<close>

theorem fidtable_lookup_until_unbind:
  assumes nonempty: "0 < max_fids ft"
    and start: "CIFSD_START_FID K \<le> start_pos ft"
    and alloc: "cifsd_get_unused_id K ft mem = (fid, ft1, mem1)"
    and ok: "0 \<le> fid"
    and bind: "insert_id_in_fidtable ft1 tree_id (nat fid) fl mem1 = Inr (Some fp, ft2, mem2)"
    and run: "fid_run K ops (ft2, mem2) = Inr (ft', mem')"
    and keep: "stays_bound (nat fid) ops"
  shows "CIFSD_START_FID K \<le> nat fid \<and> nat fid < max_fids ft2 \<and> nat fid < max_fids ft'
       \<and> fp = zeroed_file\<lparr>filp := fl, tid := tree_id, f_state := FP_NEW\<rparr>
       \<and> get_id_from_fidtable K ft2 (nat fid) =
             (Some (fp\<lparr>f_count := 1\<rparr>),
              ft2\<lparr>fileid := (fileid ft2)(nat fid := Some (fp\<lparr>f_count := 1\<rparr>))\<rparr>)
       \<and> (\<exists>c. fileid ft' (nat fid) =
                Some (fp\<lparr>f_count := c,
                        f_state := (if list_ex (marks_freeing (nat fid)) ops then FP_FREEING
                                    else FP_NEW)\<rparr>)
             \<and> get_id_from_fidtable K ft' (nat fid) =
                 (if list_ex (marks_freeing (nat fid)) ops then (None, ft')
                  else (Some (fp\<lparr>f_count := c + 1\<rparr>),
                        ft'\<lparr>fileid := (fileid ft')
                              (nat fid := Some (fp\<lparr>f_count := c + 1\<rparr>))\<rparr>)))
       \<and> delete_id_from_fidtable ft' (nat fid) True =
             Inr (ft'\<lparr>fileid := (fileid ft')(nat fid := None)\<rparr>)
       \<and> (\<forall>rel ftd ops2 ft3 mem3.
             delete_id_from_fidtable ft' (nat fid) rel = Inr ftd
             \<and> fid_run K ops2 (ftd, mem') = Inr (ft3, mem3) \<and> stays_unbound (nat fid) ops2
             \<longrightarrow> get_id_from_fidtable K ft3 (nat fid) = (None, ft3))
       \<and> (\<forall>j. j < CIFSD_START_FID K \<or> max_fids ft' \<le> j \<longrightarrow>
              get_id_from_fidtable K ft' j = (None, ft'))"
  using assms by (rule bound_id_lookup)

theorem fidtable_lookup_until_unbind_witness:
  "0 < max_fids nearly_full_table
   \<and> CIFSD_START_FID consts64 \<le> start_pos nearly_full_table
   \<and> fst (cifsd_get_unused_id consts64 nearly_full_table []) = 63
   \<and> fid_run consts64 [OP_ALLOC, OP_LOOKUP 63] (table_63_bound, []) =
         Inr (table_128 (file_42\<lparr>f_count := 1\<rparr>), [])
   \<and> stays_bound 63 [OP_ALLOC, OP_LOOKUP 63]
   \<and> fid_run consts64 [OP_ALLOC, OP_FREEING 63] (table_63_bound, []) =
         Inr (table_128 (file_42\<lparr>f_state := FP_FREEING\<rparr>), [])
   \<and> stays_bound 63 [OP_ALLOC, OP_FREEING 63]
   \<and> max_fids table_63_bound = 64
   \<and> max_fids (table_128 (file_42\<lparr>f_count := 1\<rparr>)) = 128
   \<and> fst (get_id_from_fidtable consts64 table_63_bound 63) = Some (file_42\<lparr>f_count := 1\<rparr>)
   \<and> fst (get_id_from_fidtable consts64 (table_128 (file_42\<lparr>f_count := 1\<rparr>)) 63) =
         Some (file_42\<lparr>f_count := 2\<rparr>)
   \<and> fst (get_id_from_fidtable consts64 (table_128 (file_42\<lparr>f_state := FP_FREEING\<rparr>)) 63) =
         None
   \<and> fst (get_id_from_fidtable consts64
         ((table_128 (file_42\<lparr>f_count := 1\<rparr>))
            \<lparr>fileid := (fileid (table_128 (file_42\<lparr>f_count := 1\<rparr>)))(63 := None)\<rparr>) 63) = None
   \<and> fst (get_id_from_fidtable consts64 (table_128 (file_42\<lparr>f_count := 1\<rparr>)) 0) = None
   \<and> fst (get_id_from_fidtable consts64 (table_128 (file_42\<lparr>f_count := 1\<rparr>)) 128) = None"
proof -
  define tA where "tA = table_128 (file_42\<lparr>f_count := 1\<rparr>)"
  define tB where "tB = table_128 (file_42\<lparr>f_state := FP_FREEING\<rparr>)"
  have h1: "0 < max_fids nearly_full_table" by (simp add: nearly_full_table_def)
  have h2: "CIFSD_START_FID consts64 \<le> start_pos nearly_full_table"
    by (simp add: nearly_full_table_def consts64_def)
  note h3 = alloc_in_nearly_full_table
  have h4: "(0 :: int) \<le> 63" by simp
  note h5 = bind_63
  have kA: "stays_bound (nat 63) [OP_ALLOC, OP_LOOKUP 63]"
    and kB: "stays_bound (nat 63) [OP_ALLOC, OP_FREEING 63]"
    by (simp_all add: stays_bound_def)
  have rA: "fid_run consts64 [OP_ALLOC, OP_LOOKUP 63] (table_63_bound, []) = Inr (tA, [])"
    and rB: "fid_run consts64 [OP_ALLOC, OP_FREEING 63] (table_63_bound, []) = Inr (tB, [])"
    unfolding tA_def tB_def by (rule run_grow_lookup, rule run_grow_freeing)
  have sA: "fileid tA 63 = Some (file_42\<lparr>f_count := 1\<rparr>)"
    by (simp add: tA_def table_128_def)
  have n: "nat 63 = 63" by simp
  note A = fidtable_lookup_until_unbind [OF h1 h2 h3 h4 h5 rA kA, unfolded n]
  note B = fidtable_lookup_until_unbind [OF h1 h2 h3 h4 h5 rB kB, unfolded n]
  from A have m2: "63 < max_fids table_63_bound" and mA: "63 < max_fids tA"
    and l2: "fst (get_id_from_fidtable consts64 table_63_bound 63) =
        Some (file_42\<lparr>f_count := 1\<rparr>)"
    by simp_all
  from A obtain c where
    c1: "fileid tA 63 = Some (file_42\<lparr>f_count := c, f_state := FP_NEW\<rparr>)"
    and c2: "fst (get_id_from_fidtable consts64 tA 63) = Some (file_42\<lparr>f_count := c + 1\<rparr>)"
    by auto
  from c1 sA have "c = 1" by (simp add: file_42_def zeroed_file_def)
  with c2 have lA: "fst (get_id_from_fidtable consts64 tA 63) = Some (file_42\<lparr>f_count := 2\<rparr>)"
    by simp
  from B have lB: "fst (get_id_from_fidtable consts64 tB 63) = None" by auto
  from A have del: "delete_id_from_fidtable tA 63 True =
      Inr (tA\<lparr>fileid := (fileid tA)(63 := None)\<rparr>)"
    by simp
  have r0: "fid_run consts64 [] (tA\<lparr>fileid := (fileid tA)(63 := None)\<rparr>, []) =
      Inr (tA\<lparr>fileid := (fileid tA)(63 := None)\<rparr>, [])"
    by simp
  have u0: "stays_unbound 63 []" by (simp add: stays_unbound_def)
  from A del r0 u0
  have lD: "get_id_from_fidtable consts64 (tA\<lparr>fileid := (fileid tA)(63 := None)\<rparr>) 63 =
      (None, tA\<lparr>fileid := (fileid tA)(63 := None)\<rparr>)"
    by blast
  from A have out: "\<forall>j. j < CIFSD_START_FID consts64 \<or> max_fids tA \<le> j \<longrightarrow>
              get_id_from_fidtable consts64 tA j = (None, tA)"
    by blast
  have mx: "max_fids tA = 128" "max_fids table_63_bound = 64"
    by (simp_all add: tA_def table_128_def table_63_bound_def nearly_full_table_def)
  from out have l0: "fst (get_id_from_fidtable consts64 tA 0) = None"
    and l128: "fst (get_id_from_fidtable consts64 tA 128) = None"
    by (simp_all add: consts64_def mx)
  show ?thesis
    unfolding tA_def [symmetric] tB_def [symmetric]
    using h1 h2 h3 rA rB kA kB mx l2 lA lB lD l0 l128 by simp
qed


lemma init_fidtable_fresh: "init_fidtable consts64 [] = (0, Some fresh_table, [])"
  by (simp add: init_fidtable_def alloc_fidtable_def consts64_def fresh_table_def)

text \<open>
  C10. The table of 64 entries with the ids 1 to 62 in use hands out 63 next, without
  growing. That id is \<open>max_fids - 1\<close>: releasing it is refused with \<open>-EINVAL\<close> and its bit stays set,
  whereas releasing 62 succeeds and clears the bit.
\<close>

theorem cifsd_close_id_refuses_top_id:
  "fst (cifsd_get_unused_id consts64 nearly_full_table []) = 63
   \<and> max_fids table_after_top_alloc = 64
   \<and> cifsd_bitmap table_after_top_alloc 63
   \<and> cifsd_close_id table_after_top_alloc 63 = (- EINVAL, table_after_top_alloc)
   \<and> fst (cifsd_close_id table_after_top_alloc 62) = 0
   \<and> \<not> cifsd_bitmap (snd (cifsd_close_id table_after_top_alloc 62)) 62"
proof -
  have f: "cifsd_find_next_zero_bit (cifsd_bitmap nearly_full_table)
             (max_fids nearly_full_table) (start_pos nearly_full_table) = 63"
    by code_simp
  have g: "cifsd_get_unused_id consts64 nearly_full_table [] =
             (63, nearly_full_table\<lparr>cifsd_bitmap :=
                     cifsd_set_bit 63 (cifsd_bitmap nearly_full_table),
                   start_pos := 63 + 1\<rparr>, [])"
    by (subst cifsd_get_unused_id.simps) (simp add: f Let_def, simp add: nearly_full_table_def)
  have t: "table_after_top_alloc =
             nearly_full_table\<lparr>cifsd_bitmap :=
                     cifsd_set_bit 63 (cifsd_bitmap nearly_full_table),
                   start_pos := 63 + 1\<rparr>"
    by (simp add: table_after_top_alloc_def g)
  have m: "max_fids table_after_top_alloc = 64"
    by (simp add: t nearly_full_table_def)
  have b: "cifsd_bitmap table_after_top_alloc 63"
    by (simp add: t cifsd_set_bit_def)
  have c: "cifsd_close_id table_after_top_alloc 63 = (- EINVAL, table_after_top_alloc)"
    by (simp add: cifsd_close_id_def m)
  have d: "fst (cifsd_close_id table_after_top_alloc 62) = 0"
    by (simp add: cifsd_close_id_def m)
  have e: "\<not> cifsd_bitmap (snd (cifsd_close_id table_after_top_alloc 62)) 62"
    by (simp add: cifsd_close_id_def m cifsd_clear_bit_def)
  show ?thesis using g m b c d e by simp
qed


section \<open>Properties of the VFS adapter and of READ_ANDX\<close>

lemma check_lock_loop_write_lock:
  assumes "l \<in> set locks" and "fl_type l = F_WRLCK" and "fl_file l \<noteq> fl"
    and "fl_end l \<ge> start" and "end \<ge> fl_start l"
  shows "check_lock_loop locks fl start end READ = 1"
  using assms by (induction locks) auto

lemma s64_id: "- (2 ^ 63) \<le> x \<Longrightarrow> x < 2 ^ 63 \<Longrightarrow> s64 x = x"
  by (simp add: s64_def)

lemma smb_read_andx_lock_conflict:
  assumes nopipe: "\<not> is_pipe"
    and lookup: "get_id_from_fidtable K ftab (unat (req_Fid req)) = (Some fp, ftab1)"
    and regular: "\<not> is_stream fp" "\<not> i_isdir (file_inode h (filp fp))"
    and locks: "i_flctx (file_inode h (filp fp)) = Some locks" "l \<in> set locks"
      "fl_type l = F_WRLCK" "fl_file l \<noteq> filp fp"
    and inter: "read_pos req \<le> x" "x < read_pos req + int (read_count large iosize req)"
      "fl_start l \<le> x" "x \<le> fl_end l"
    and noovf: "read_pos req + int (read_count large iosize req) \<le> 2 ^ 63"
  shows "smb_read_andx K iosize large is_pipe pipe ftab h e req rsp =
           (if fst (kalloc (allocs e)) then - EAGAIN else - ENOMEM,
            rsp\<lparr>Status_CifsError := NT_STATUS_INVALID_HANDLE\<rparr>,
            None, put_slot ftab1 (unat (req_Fid req)), h)"
proof -
  define pos where "pos = read_pos req"
  define count where "count = read_count large iosize req"
  have cpos: "count \<noteq> 0" using inter(1,2) by (auto simp: pos_def count_def)
  have lo: "- (2 ^ 63) \<le> read_pos req"
  proof (cases "req_WordCount req = 12")
    case True
    then show ?thesis by (simp add: read_pos_def s64_def)
  next
    case False
    have "- (2 ^ 63) \<le> (0::int)" by simp
    also have "0 \<le> uint (OffsetLow req)" by simp
    finally show ?thesis using False by (simp only: read_pos_def if_False)
  qed
  have e: "s64 (pos + int count - 1) = pos + int count - 1"
    using lo noovf cpos inter(1,2) by (intro s64_id) (auto simp: pos_def count_def)
  have ne: "locks \<noteq> []" using locks(2) by auto
  have b1: "fl_end l \<ge> pos" using inter(1,4) by (simp add: pos_def)
  have b2: "pos + int count - 1 \<ge> fl_start l" using inter(2,3) by (simp add: pos_def count_def)
  have c: "check_lock_range h (filp fp) pos (s64 (pos + int count - 1)) READ = 1"
    unfolding check_lock_range_def locks(1) e using ne
    by (simp add: check_lock_loop_write_lock [OF locks(2,3,4) b1 b2])
  have v: "smb_vfs_read K ftab h e (unat (req_Fid req)) count pos =
      (if fst (kalloc (allocs e)) then - EAGAIN else - ENOMEM, None,
       put_slot ftab1 (unat (req_Fid req)), h)"
    using regular cpos by (simp add: smb_vfs_read_def lookup Let_def c)
  have neg: "(if fst (kalloc (allocs e)) then - EAGAIN else - ENOMEM) < 0"
    by (simp add: EAGAIN_def ENOMEM_def)
  show ?thesis
    using nopipe neg
    by (simp add: smb_read_andx_def Let_def pos_def [symmetric] count_def [symmetric] v)
qed

text \<open>Facts about the example.\<close>

lemma example_lookup:
  "get_id_from_fidtable consts64 two_opens (unat (req_Fid read_5_2)) =
     (Some (fp_get (zeroed_file\<lparr>filp := 102, f_state := FP_READY\<rparr>)),
      two_opens\<lparr>fileid := (fileid two_opens)
        (2 := Some (fp_get (zeroed_file\<lparr>filp := 102, f_state := FP_READY\<rparr>)))\<rparr>)"
  by (simp add: get_id_from_fidtable_def two_opens_def read_5_2_def consts64_def
      zeroed_file_def)

lemma example_file:
  "\<not> is_stream (fp_get (zeroed_file\<lparr>filp := 102, f_state := FP_READY\<rparr>))"
  "filp (fp_get (zeroed_file\<lparr>filp := 102, f_state := FP_READY\<rparr>)) = 102"
  "\<not> i_isdir (file_inode locked_host 102)"
  "i_flctx (file_inode locked_host 102) =
     Some [lock_0_9]"
  by (simp_all add: fp_get_def zeroed_file_def file_inode_def locked_host_def)

lemma example_lock:
  "fl_start lock_0_9 = 0" "fl_end lock_0_9 = 9" "fl_type lock_0_9 = F_WRLCK"
  "fl_file lock_0_9 = 101"
  by (simp_all add: lock_0_9_def)

lemma example_range:
  "read_pos read_5_2 = 5" "read_count False 65536 read_5_2 = 2"
  by (simp_all add: read_pos_def read_count_def read_5_2_def)

text \<open>
  C2 as stated fails: in the scenario of the specification (an exclusive lock
  \<open>[0, 9]\<close> held through another open of the inode, a read of 2 bytes at offset 5)
  the read fails with \<open>-EAGAIN\<close>, and the status in the response is
  \<open>INVALID_HANDLE\<close>, not \<open>FILE_LOCK_CONFLICT\<close>.
\<close>

theorem smb_read_andx_lock_conflict_counterexample:
  "fst (smb_read_andx consts64 65536 False False (0, blank_rsp) two_opens locked_host
          quiet_env read_5_2 blank_rsp) = - EAGAIN
   \<and> Status_CifsError (fst (snd (smb_read_andx consts64 65536 False False (0, blank_rsp)
          two_opens locked_host quiet_env read_5_2 blank_rsp))) = NT_STATUS_INVALID_HANDLE
   \<and> Status_CifsError (fst (snd (smb_read_andx consts64 65536 False False (0, blank_rsp)
          two_opens locked_host quiet_env read_5_2 blank_rsp))) \<noteq> NT_STATUS_FILE_LOCK_CONFLICT"
proof -
  have a: "fst (kalloc (allocs quiet_env))" by (simp add: quiet_env_def)
  have "smb_read_andx consts64 65536 False False (0, blank_rsp) two_opens locked_host
          quiet_env read_5_2 blank_rsp =
        (if fst (kalloc (allocs quiet_env)) then - EAGAIN else - ENOMEM,
         blank_rsp\<lparr>Status_CifsError := NT_STATUS_INVALID_HANDLE\<rparr>, None,
         put_slot (two_opens\<lparr>fileid := (fileid two_opens)
            (2 := Some (fp_get (zeroed_file\<lparr>filp := 102, f_state := FP_READY\<rparr>)))\<rparr>)
           (unat (req_Fid read_5_2)), locked_host)"
    by (rule smb_read_andx_lock_conflict [where l = lock_0_9 and locks = "[lock_0_9]" and x = 5, OF _ example_lookup])
       (simp_all add: example_file example_range example_lock)
  then show ?thesis using a by simp
qed

text \<open>
  C2, amended. For a READ_ANDX on a regular file (not a stream, pipe or directory)
  whose byte range \<open>[pos, pos + count)\<close>, with \<open>count\<close> the requested count capped at
  \<open>CIFS_DEFAULT_IOSIZE\<close> and the range inside \<open>loff_t\<close>, intersects a POSIX write
  lock held through another open file: the read fails (\<open>-EAGAIN\<close>, or \<open>-ENOMEM\<close>
  when the read buffer cannot be allocated), no data is returned, and the status of the
  response is \<open>INVALID_HANDLE\<close>.
\<close>

theorem smb_read_andx_write_lock_status:
  assumes "\<not> is_pipe"
    and "get_id_from_fidtable K ftab (unat (req_Fid req)) = (Some fp, ftab1)"
    and "\<not> is_stream fp" and "\<not> i_isdir (file_inode h (filp fp))"
    and "i_flctx (file_inode h (filp fp)) = Some locks" and "l \<in> set locks"
    and "fl_type l = F_WRLCK" and "fl_file l \<noteq> filp fp"
    and "read_pos req \<le> x" and "x < read_pos req + int (read_count large iosize req)"
    and "fl_start l \<le> x" and "x \<le> fl_end l"
    and "read_pos req + int (read_count large iosize req) \<le> 2 ^ 63"
  shows "fst (smb_read_andx K iosize large is_pipe pipe ftab h e req rsp) =
           (if fst (kalloc (allocs e)) then - EAGAIN else - ENOMEM)
       \<and> fst (smb_read_andx K iosize large is_pipe pipe ftab h e req rsp) < 0
       \<and> Status_CifsError (fst (snd (smb_read_andx K iosize large is_pipe pipe ftab h e
             req rsp))) = NT_STATUS_INVALID_HANDLE
       \<and> fst (snd (snd (smb_read_andx K iosize large is_pipe pipe ftab h e req rsp))) = None"
  by (simp add: smb_read_andx_lock_conflict [OF assms] EAGAIN_def ENOMEM_def)

theorem smb_read_andx_write_lock_status_witness:
  "get_id_from_fidtable consts64 two_opens (unat (req_Fid read_5_2)) =
     (Some (fp_get (zeroed_file\<lparr>filp := 102, f_state := FP_READY\<rparr>)),
      two_opens\<lparr>fileid := (fileid two_opens)
        (2 := Some (fp_get (zeroed_file\<lparr>filp := 102, f_state := FP_READY\<rparr>)))\<rparr>)
   \<and> i_flctx (file_inode locked_host 102) =
       Some [lock_0_9]
   \<and> read_pos read_5_2 = 5 \<and> read_count False 65536 read_5_2 = 2
   \<and> fst (smb_read_andx consts64 65536 False False (0, blank_rsp) two_opens locked_host
          quiet_env read_5_2 blank_rsp) < 0
   \<and> Status_CifsError (fst (snd (smb_read_andx consts64 65536 False False (0, blank_rsp)
          two_opens locked_host quiet_env read_5_2 blank_rsp))) = NT_STATUS_INVALID_HANDLE"
proof -
  have "fst (smb_read_andx consts64 65536 False False (0, blank_rsp) two_opens locked_host
          quiet_env read_5_2 blank_rsp) < 0
   \<and> Status_CifsError (fst (snd (smb_read_andx consts64 65536 False False (0, blank_rsp)
          two_opens locked_host quiet_env read_5_2 blank_rsp))) = NT_STATUS_INVALID_HANDLE"
    using smb_read_andx_write_lock_status [where l = lock_0_9 and locks = "[lock_0_9]" and x = 5 and K = consts64
          and ftab = two_opens and req = read_5_2 and h = locked_host and large = False
          and iosize = 65536 and is_pipe = False and pipe = "(0, blank_rsp)"
          and e = quiet_env and rsp = blank_rsp, OF _ example_lookup]
    by (simp add: example_file example_range example_lock)
  then show ?thesis
    using example_lookup example_file(4) example_range by simp
qed

lemma u64_id: "0 \<le> x \<Longrightarrow> x < 2 ^ 64 \<Longrightarrow> u64 x = nat x"
  by (simp add: u64_def)

lemma smb_vfs_write_stream_over_cap:
  assumes lookup: "get_id_from_fidtable K ftab fid = (Some fp, ftab1)"
    and stream: "is_stream fp"
    and old: "smb_find_cont_xattr h (filp fp) (stream_name fp) = Some old_buf"
    and short: "length old_buf < XATTR_SIZE_MAX"
    and pos: "0 \<le> pos" "pos + int count0 < 2 ^ 64"
    and over: "nat pos + count0 > XATTR_SIZE_MAX"
    and c: "c = nat pos + count0 - XATTR_SIZE_MAX"
    and inb: "nat pos + c \<le> XATTR_SIZE_MAX" "c \<le> length buf"
    and ok: "fst (kalloc (allocs e))" "0 \<le> store_xattr_ret e"
    and sb: "sb = old_buf @ drop (length old_buf) (alloc_data_mem (fill e) XATTR_SIZE_MAX)"
  shows "smb_vfs_write K ftab h e fid buf count0 pos sync written0 =
     Inr (0, int c, put_slot ftab1 fid,
       (smb_store_cont_xattr h (filp fp) (stream_name fp)
          (take (nat pos) sb @ take c buf @ drop (nat pos + c) sb) XATTR_SIZE_MAX)
       \<lparr>files := (files h)((filp fp) := (files h (filp fp))\<lparr>f_pos := pos\<rparr>)\<rparr>)"
proof -
  have u1: "u64 (pos + int count0) = nat pos + count0"
    using pos by (simp add: u64_id nat_add_distrib)
  have u2: "u64 (pos + int count0 - int XATTR_SIZE_MAX) = c"
    using pos over c by (subst u64_id) auto
  have ov: "u64 (pos + int count0) > XATTR_SIZE_MAX" using over u1 by simp
  have len: "length sb = XATTR_SIZE_MAX"
    using short by (simp add: sb alloc_data_mem_def)
  have nb: "\<not> (pos < 0 \<or> nat pos + c > length sb \<or> c > length buf)"
    using pos(1) inb len by simp
  have fl: "files (smb_store_cont_xattr h (filp fp) (stream_name fp) b n) = files h" for b n
    by (simp add: smb_store_cont_xattr_def)
  show ?thesis
    using stream short ok nb
    by (simp add: smb_vfs_write_def lookup Let_def old ov u2 sb [symmetric] fl
          del: kalloc.simps)
qed

lemma stored_value:
  "i_xattrs (file_inode ((smb_store_cont_xattr h fl n b sz)\<lparr>files := (files h)(fl := (files h fl)\<lparr>f_pos := p\<rparr>)\<rparr>) fl) n
     = Some (take sz b)"
  by (simp add: smb_store_cont_xattr_def file_inode_def)

text \<open>
  C3. A stream write that crosses the cap is not refused, and the stored value has
  exactly the cap's length; but the number of bytes taken from the caller is the
  excess \<open>pos + count - XATTR_SIZE_MAX\<close>, not the room \<open>XATTR_SIZE_MAX - pos\<close>. Writing
  the 8 bytes \<open>ABCDEFGH\<close> at offset 65530 of an empty stream stores \<open>AB\<close> at
  65530 and reports 2 bytes written; the claim has \<open>ABCDEF\<close> stored.
\<close>

theorem smb_vfs_write_stream_over_cap_stores_excess:
  "\<not> isl stream_write_8
   \<and> fst (projr stream_write_8) = 0
   \<and> fst (snd (projr stream_write_8)) = 2
   \<and> length stream_value_after = XATTR_SIZE_MAX
   \<and> drop 65530 stream_value_after = [0x41, 0x42, 0, 0, 0, 0]
   \<and> take (XATTR_SIZE_MAX - 65530) data8 = [0x41, 0x42, 0x43, 0x44, 0x45, 0x46]"
proof -
  define sb where "sb = ([]::8 word list) @ drop (length ([]::8 word list))
      (alloc_data_mem (fill quiet_env) XATTR_SIZE_MAX)"
  have lookup: "get_id_from_fidtable consts64 stream_open 1 =
     (Some (fp_get (zeroed_file\<lparr>filp := 201, f_state := FP_READY, is_stream := True,
                                 stream_name := ''user.stream:s''\<rparr>)),
      stream_open\<lparr>fileid := (fileid stream_open)
        (1 := Some (fp_get (zeroed_file\<lparr>filp := 201, f_state := FP_READY, is_stream := True,
                                 stream_name := ''user.stream:s''\<rparr>)))\<rparr>)"
    by (simp add: get_id_from_fidtable_def stream_open_def consts64_def zeroed_file_def)
  define fp where "fp = fp_get (zeroed_file\<lparr>filp := 201, f_state := FP_READY,
      is_stream := True, stream_name := ''user.stream:s''\<rparr>)"
  have fp: "is_stream fp" "filp fp = 201" "stream_name fp = ''user.stream:s''"
    by (simp_all add: fp_def fp_get_def zeroed_file_def)
  have old: "smb_find_cont_xattr stream_host (filp fp) (stream_name fp) = Some []"
    by (simp add: fp smb_find_cont_xattr_def file_inode_def stream_host_def)
  have r: "stream_write_8 =
     Inr (0, int 2, put_slot (stream_open\<lparr>fileid := (fileid stream_open)(1 := Some fp)\<rparr>) 1,
       (smb_store_cont_xattr stream_host (filp fp) (stream_name fp)
          (take (nat 65530) sb @ take 2 data8 @ drop (nat 65530 + 2) sb) XATTR_SIZE_MAX)
       \<lparr>files := (files stream_host)((filp fp) := (files stream_host (filp fp))\<lparr>f_pos := 65530\<rparr>)\<rparr>)"
    unfolding stream_write_8_def
    by (rule smb_vfs_write_stream_over_cap [OF lookup [folded fp_def] fp(1) old _ _ _ _ _ _ _ _ _ sb_def])
       (simp_all add: XATTR_SIZE_MAX_def data8_def quiet_env_def)
  have len: "length sb = 65536"
    by (simp add: sb_def alloc_data_mem_def XATTR_SIZE_MAX_def)
  have v: "stream_value_after =
      take XATTR_SIZE_MAX (take 65530 sb @ take 2 data8 @ drop 65532 sb)"
    unfolding stream_value_after_def r
    by (simp add: fp stored_value [of stream_host 201, simplified])
  have l2: "length (take 65530 sb @ take 2 data8 @ drop 65532 sb) = 65536"
    by (simp add: len data8_def)
  have v': "stream_value_after = take 65530 sb @ take 2 data8 @ drop 65532 sb"
    unfolding v using l2 by (simp add: XATTR_SIZE_MAX_def)
  have d: "drop 65532 sb = [0, 0, 0, 0]"
    by (simp add: sb_def alloc_data_mem_def XATTR_SIZE_MAX_def quiet_env_def drop_map)
  have dv: "drop 65530 stream_value_after = take 2 data8 @ drop 65532 sb"
    unfolding v' using len by simp
  have p: "\<not> isl stream_write_8" "fst (projr stream_write_8) = 0"
      "fst (snd (projr stream_write_8)) = 2"
    unfolding r by simp_all
  have lv: "length stream_value_after = XATTR_SIZE_MAX"
    unfolding v' using l2 by (simp add: XATTR_SIZE_MAX_def)
  have dd: "drop 65530 stream_value_after = [0x41, 0x42, 0, 0, 0, 0]"
    unfolding dv d by (simp add: data8_def)
  have t: "take (XATTR_SIZE_MAX - 65530) data8 = [0x41, 0x42, 0x43, 0x44, 0x45, 0x46]"
    by (simp add: data8_def XATTR_SIZE_MAX_def)
  show ?thesis using p lv dd t by simp
qed

section \<open>Properties of the short-name mangling\<close>

lemma MANGLE_BASE_42: "MANGLE_BASE = 42"
  by (simp add: MANGLE_BASE_def basechars_def)

lemma extension_loop_closed:
  "length ext \<le> 3 \<Longrightarrow>
   extension_loop p ext =
     ext @ map toupper (take (3 - length ext) (filter (\<lambda>c. c \<noteq> CHR ''.'') p))"
proof (induction p arbitrary: ext)
  case Nil
  then show ?case by simp
next
  case (Cons c p)
  show ?case
  proof (cases "length ext < 3")
    case False
    then show ?thesis using Cons.prems by simp
  next
    case True
    then have s: "3 - length ext = Suc (3 - Suc (length ext))" by simp
    show ?thesis
    proof (cases "c = CHR ''.''")
      case True
      then show ?thesis using \<open>length ext < 3\<close> Cons.IH [of ext] Cons.prems by simp
    next
      case False
      have "length (ext @ [toupper c]) \<le> 3" using True by simp
      from Cons.IH [OF this] show ?thesis using False True by (simp add: s)
    qed
  qed
qed

lemma base_loop_closed:
  "length base \<le> 5 \<Longrightarrow>
   base_loop p base =
     base @ map toupper (take (5 - length base) (filter (\<lambda>c. c \<noteq> CHR ''.'') p))"
proof (induction p arbitrary: base)
  case Nil
  then show ?case by simp
next
  case (Cons c p)
  show ?case
  proof (cases "length base < 5")
    case False
    then show ?thesis using Cons.prems by simp
  next
    case True
    then have s: "5 - length base = Suc (5 - Suc (length base))" by simp
    show ?thesis
    proof (cases "c = CHR ''.''")
      case True
      then show ?thesis using \<open>length base < 5\<close> Cons.IH [of base] Cons.prems by simp
    next
      case False
      have "length (base @ [toupper c]) \<le> 5" using True by simp
      from Cons.IH [OF this] show ?thesis using False True by (simp add: s)
    qed
  qed
qed

lemma csum_loop_closed:
  "csum_loop p c = (c + sum_list (map of_char p)) mod 2 ^ 32"
  if "c < 2 ^ 32"
  using that
proof (induction p arbitrary: c)
  case Nil
  then show ?case by simp
next
  case (Cons x p)
  have "(c + of_char x) mod 2 ^ 32 < (2 ^ 32 :: nat)" by simp
  from Cons.IH [OF this]
  show ?case by (simp add: mod_simps ac_simps)
qed

lemma strrchr_None: "strrchr s c = None \<longleftrightarrow> c \<notin> set s"
  by (induction s) (auto split: option.splits)

lemma strrchr_Some:
  "strrchr s c = Some i \<Longrightarrow> i < length s \<and> s ! i = c \<and> c \<notin> set (drop (Suc i) s)"
proof (induction s arbitrary: i)
  case Nil
  then show ?case by simp
next
  case (Cons x xs)
  show ?case
  proof (cases "strrchr xs c")
    case None
    then have "c \<notin> set xs" by (simp add: strrchr_None)
    then show ?thesis using Cons.prems None by (auto split: if_splits)
  next
    case (Some j)
    then have "i = Suc j" using Cons.prems by simp
    then show ?thesis using Cons.IH [OF Some] by simp
  qed
qed

lemma after_last_period_drop:
  assumes "i < length s" and "s ! i = CHR ''.''" and "CHR ''.'' \<notin> set (drop (Suc i) s)"
  shows "after_last_period s = drop (Suc i) s"
proof -
  have s: "s = take i s @ CHR ''.'' # drop (Suc i) s"
    using assms(1,2) by (metis id_take_nth_drop)
  have "rev s = rev (drop (Suc i) s) @ CHR ''.'' # rev (take i s)"
    by (subst s) simp
  then have "takeWhile (\<lambda>c. c \<noteq> CHR ''.'') (rev s) = rev (drop (Suc i) s)"
    using assms(3) by (auto simp: takeWhile_tail)
  then show ?thesis by (simp add: after_last_period_def)
qed

lemma smb_get_shortname_closed:
  "smb_get_shortname s =
     (if s \<noteq> [] \<and> hd s = CHR ''.'' then (0, None)
      else (int (2 * length (mangled_name s)), Some (mangled_name s)))"
proof (cases "s \<noteq> [] \<and> hd s = CHR ''.''")
  case True
  then show ?thesis by (simp add: smb_get_shortname_def)
next
  case False
  then have nd: "s \<noteq> ''..''" by auto
  have base: "base_loop s [] = map toupper (take 5 (filter (\<lambda>c. c \<noteq> CHR ''.'') s))"
    by (simp add: base_loop_closed)
  have csum: "csum_loop s 0 = byte_sum s"
    by (simp add: csum_loop_closed byte_sum_def)
  have ext: "(case strrchr s CHR ''.'' of
                  Some 0 \<Rightarrow> ''___''
                | Some (Suc i) \<Rightarrow> extension_loop (drop (Suc (Suc i)) s) []
                | None \<Rightarrow> []) =
             (if CHR ''.'' \<in> set s then map toupper (take 3 (after_last_period s)) else [])"
  proof (cases "strrchr s CHR ''.''")
    case None
    then have "CHR ''.'' \<notin> set s" by (simp add: strrchr_None)
    then show ?thesis using None by simp
  next
    case (Some i)
    from strrchr_Some [OF Some]
    have i: "i < length s" "s ! i = CHR ''.''" "CHR ''.'' \<notin> set (drop (Suc i) s)" by auto
    have mem: "CHR ''.'' \<in> set s" using i(1,2) by (metis nth_mem)
    have "i \<noteq> 0"
    proof
      assume "i = 0"
      then have "s \<noteq> [] \<and> hd s = CHR ''.''" using i(1,2) by (cases s) auto
      then show False using False by simp
    qed
    then obtain j where j: "i = Suc j" by (cases i) auto
    have f: "filter (\<lambda>c. c \<noteq> CHR ''.'') (drop (Suc i) s) = drop (Suc i) s"
      using i(3) by (auto simp: filter_id_conv)
    have e: "extension_loop (drop (Suc i) s) [] = map toupper (take 3 (drop (Suc i) s))"
      by (simp add: extension_loop_closed f)
    have a: "after_last_period s = drop (Suc i) s"
      by (rule after_last_period_drop [OF i])
    show ?thesis
      unfolding Some a using mem e by (simp add: j)
  qed
  have dp: "(strrchr s CHR ''.'' \<noteq> None) = (CHR ''.'' \<in> set s)"
    by (simp add: strrchr_None)
  have sd: "(s \<noteq> [] \<and> hd s = CHR ''.'') = False" using False by simp
  have m: "byte_sum s mod (42 * 42) mod 42 = byte_sum s mod 42\<^sup>2 mod 42"
      "byte_sum s mod (42 * 42) div 42 mod 42 = byte_sum s mod 42\<^sup>2 div 42"
    by (simp_all add: power2_eq_square)
  have out: "smb_get_shortname s = (int (length (mangled_name s) * 2), Some (mangled_name s))"
    unfolding smb_get_shortname_def Let_def sd if_False base csum ext dp MANGLE_BASE_42
      mangle_def MAGIC_CHAR_def PERIOD_def m
    using nd by (simp add: mangled_name_def)
  then show ?thesis using False by (simp add: mult.commute)
qed

lemma mangled_examples:
  "mangled_name ''a'' = ''A~2D.''"
  "mangled_name ''ab.txt'' = ''ABTXT~E5.TXT''"
  "mangled_name ''longfilename.html'' = ''LONGF~$Q.HTM''"
  by (simp_all add: mangled_name_def byte_sum_def basechars_def toupper_def islower_def
      after_last_period_def char_of_def bit_Suc_0_iff)

text \<open>
  C9 as stated fails. A name that starts with a period and is neither \<open>.\<close> nor \<open>..\<close>
  gets no short name at all. The two mangling characters are the digits in base 42,
  not 43 (\<open>MANGLE_BASE\<close> is \<open>sizeof(basechars) - 1\<close>): for the name \<open>a\<close>, of byte sum 97,
  they are \<open>2D\<close>, where base 43 gives \<open>2B\<close>. And the five characters before the
  tilde are taken from the whole name, the extension included.
\<close>

theorem smb_get_shortname_counterexample:
  "smb_get_shortname ''.bashrc'' = (0, None)
   \<and> smb_get_shortname ''a'' = (10, Some ''A~2D.'')
   \<and> [basechars ! ((97 mod 43\<^sup>2) div 43), basechars ! ((97 mod 43\<^sup>2) mod 43)] = ''2B''
   \<and> smb_get_shortname ''ab.txt'' = (24, Some ''ABTXT~E5.TXT'')"
  by (simp add: smb_get_shortname_closed mangled_examples basechars_def)

text \<open>
  C9, amended. For every long name that does not start with a period, the short name
  is the upper-cased first five characters of the name other than the period, a tilde,
  the two digits of the sum of the name's bytes modulo \<open>42\<^sup>2\<close> in base 42 over the
  alphabet \<open>0-9A-Z_-!@#$%\<close>, a period, and the upper-cased first three characters after
  the last period of the name (none when the name has no period); the function returns
  twice the length of that string. The short name is a function of the long name.
\<close>

theorem smb_get_shortname_mangled:
  assumes "s = [] \<or> hd s \<noteq> CHR ''.''"
  shows "smb_get_shortname s = (int (2 * length (mangled_name s)), Some (mangled_name s))"
  using assms by (simp add: smb_get_shortname_closed)

theorem smb_get_shortname_mangled_witness:
  "hd ''longfilename.html'' \<noteq> CHR ''.''
   \<and> smb_get_shortname ''longfilename.html'' = (24, Some ''LONGF~$Q.HTM'')"
proof -
  have h: "''longfilename.html'' = [] \<or> hd ''longfilename.html'' \<noteq> CHR ''.''" by simp
  show ?thesis
    using smb_get_shortname_mangled [OF h] by (simp add: mangled_examples)
qed

section \<open>Properties of the security-descriptor codec\<close>

lemma parse_dacl_NULL:
  "parse_dacl R m None e ow gr mode mem AND S_IRWXUGO = S_IRWXUGO"
  by (simp add: parse_dacl_def word_bw_comms word_ao_absorbs)

lemma clear_rwx: "(mode AND NOT S_IRWXUGO) AND S_IRWXUGO = (0 :: umode_t)"
  by (simp add: word_bw_assocs)

lemma parse_dacl_no_aces:
  assumes "num_aces (acl_at m p) = 0" and "p + unat (acl_size (acl_at m p)) \<le> e"
  shows "parse_dacl R m (Some p) e ow gr mode mem AND S_IRWXUGO = 0"
  using assms by (simp add: parse_dacl_def Let_def clear_rwx)

lemma parse_sec_desc_no_dacl:
  assumes "dacloffset hdr = 0"
  shows "fattr_mode (snd (parse_sec_desc R idmap m pntsd hdr acl_len fattr mem)) = fattr_mode fattr"
  using assms
  by (auto simp: parse_sec_desc_def Let_def sid_to_id_def split: prod.splits bool.splits if_splits)

text \<open>
  C4. A DACL with no ACE leaves no permission bit: the example descriptor with an empty
  DACL turns the mode 0100777 into one without \<open>rwx\<close> bits. A descriptor without a DACL
  (\<open>dacloffset = 0\<close>) should give all of them, and \<open>parse_dacl\<close> does so when it is
  handed no DACL; but \<open>parse_sec_desc\<close> calls \<open>parse_dacl\<close> only when \<open>dacloffset\<close> is
  not 0, so the mode stays what it was: the example descriptor without a DACL leaves
  the mode 0100000 without any \<open>rwx\<close> bit.
\<close>

theorem parse_sec_desc_absent_dacl_keeps_mode:
  "parse_sec_desc cifs_rights idmap_example sd_example 0 hdr_no_dacl 156 fattr_none []
     = (0, fattr_none\<lparr>cf_uid := 1000, cf_gid := 513\<rparr>)
   \<and> fattr_mode (snd (parse_sec_desc cifs_rights idmap_example sd_example 0 hdr_no_dacl 156
         fattr_none [])) AND S_IRWXUGO = 0
   \<and> parse_dacl cifs_rights sd_example None 156 sid_owner sid_group (fattr_mode fattr_none) []
         AND S_IRWXUGO = S_IRWXUGO
   \<and> fst (parse_sec_desc cifs_rights idmap_example sd_example 0 hdr_empty_dacl 164 fattr_all [])
         = 0
   \<and> fattr_mode (snd (parse_sec_desc cifs_rights idmap_example sd_example 0 hdr_empty_dacl 164
         fattr_all [])) AND S_IRWXUGO = 0"
proof -
  have a: "parse_sec_desc cifs_rights idmap_example sd_example 0 hdr_no_dacl 156 fattr_none []
     = (0, fattr_none\<lparr>cf_uid := 1000, cf_gid := 513\<rparr>)"
    by (simp add: parse_sec_desc_def Let_def hdr_no_dacl_def parse_sid_def sid_to_id_def
        sd_example_def sid_owner_def sid_group_def SID_MAX_SUB_AUTHORITIES_def idmap_example_def)
  have b: "fattr_mode (fattr_none\<lparr>cf_uid := 1000, cf_gid := 513\<rparr>) AND S_IRWXUGO = 0"
    by (simp add: fattr_none_def S_IRWXUGO_def)
  have c: "parse_sec_desc cifs_rights idmap_example sd_example 0 hdr_empty_dacl 164 fattr_all []
     = (0, fattr_all\<lparr>cf_uid := 1000, cf_gid := 513,
          fattr_mode := parse_dacl cifs_rights sd_example (Some 156) 164 sid_owner sid_group
             (fattr_mode fattr_all) []\<rparr>)"
    by (simp add: parse_sec_desc_def Let_def hdr_empty_dacl_def parse_sid_def sid_to_id_def
        sd_example_def sid_owner_def sid_group_def SID_MAX_SUB_AUTHORITIES_def idmap_example_def)
  have d: "parse_dacl cifs_rights sd_example (Some 156) 164 sid_owner sid_group
             (fattr_mode fattr_all) [] AND S_IRWXUGO = 0"
    by (rule parse_dacl_no_aces) (simp_all add: sd_example_def)
  show ?thesis
    using b d by (simp add: a c parse_dacl_NULL)
qed

section \<open>Properties of the directory enumeration\<close>


lemma and_not_mask_int: "(x :: int) AND NOT (mask n) = x - x mod 2 ^ n"
proof -
  have "x AND NOT (mask n) = push_bit n (drop_bit n x)"
    by (rule bit_eqI) (auto simp: bit_simps)
  also have "\<dots> = x - take_bit n x"
    using bits_ident [of n x] by simp
  finally show ?thesis by (simp add: take_bit_eq_mod)
qed

lemma ALIGN_8: "ALIGN x 8 = x + 7 - (x + 7) mod 8"
  using and_not_mask_int [of "x + 7" 3] by (simp add: ALIGN_def mask_eq_exp_minus_1)

lemma ALIGN_8_ge: "x \<le> ALIGN x 8"
proof -
  have "(x + 7) mod 8 \<le> 7" using pos_mod_bound [of 8 "x + 7"] by simp
  then show ?thesis unfolding ALIGN_8 by simp
qed

lemma reclen_of_pos: "0 < sizeof_smb_dirent K \<Longrightarrow> 0 < reclen_of K e"
  using ALIGN_8_ge [of "sizeof_smb_dirent K + int (length (h_name e))"]
  by (simp add: reclen_of_def)

lemma laid_out_le:
  "laid_out K pg off xs e \<Longrightarrow> 0 < sizeof_smb_dirent K \<Longrightarrow> off \<le> e"
proof (induction xs arbitrary: off)
  case Nil
  then show ?case by simp
next
  case (Cons x xs)
  then have "off + reclen_of K x \<le> e" by simp
  then show ?case using reclen_of_pos [OF Cons.prems(2), of x] by simp
qed

lemma laid_out_cong:
  "laid_out K pg off xs e \<Longrightarrow> 0 < sizeof_smb_dirent K \<Longrightarrow> (\<And>a. a < e \<Longrightarrow> pg' a = pg a)
     \<Longrightarrow> laid_out K pg' off xs e"
proof (induction xs arbitrary: off)
  case Nil
  then show ?case by simp
next
  case (Cons x xs)
  from Cons.prems(1) have a: "pg off = dirent_of x"
    and b: "laid_out K pg (off + reclen_of K x) xs e" by simp_all
  have "off + reclen_of K x \<le> e" by (rule laid_out_le [OF b Cons.prems(2)])
  then have "off < e" using reclen_of_pos [OF Cons.prems(2), of x] by simp
  then have "pg' off = dirent_of x" using a Cons.prems(3) by simp
  moreover have "laid_out K pg' (off + reclen_of K x) xs e"
    by (rule Cons.IH [OF b Cons.prems(2) Cons.prems(3)])
  ultimately show ?case by simp
qed























lemma and_not_3: "(x :: int) AND NOT 3 = x - x mod 4"
  using and_not_mask_int [of x 2] by (simp add: mask_eq_exp_minus_1)


lemma example_sizes:
  "record_size plain_host 65 (entry ''a'' i) = 68"
  "record_size plain_host 65 (entry ''b'' i) = 68"
  "record_size plain_host 65 (entry ''c'' i) = 68"
  "record_size plain_host 65 (entry ''alpha'' i) = 76"
  "record_size plain_host 65 (entry ''bravo'' i) = 76"
  by (simp_all add: record_size_def plain_host_def entry_def and_not_3)



lemma example_entries:
  "d_entries (dir_filp dir_abc) = [entry ''a'' 1, entry ''b'' 2, entry ''c'' 3]"
  "d_entries (dir_filp dir_alpha_bravo) = [entry ''alpha'' 1, entry ''bravo'' 2]"
  "d_pos (dir_filp dir_abc) = 0" "d_pos (dir_filp dir_alpha_bravo) = 0"
  by (simp_all add: dir_abc_def dir_alpha_bravo_def opened_dir_def)


lemma entry_name: "h_name (entry n i) = n"
  by (simp add: entry_def)

lemma example_names:
  "map h_name (take 2 (d_entries (dir_filp dir_abc))) = [''a'', ''b'']"
  "map h_name (take 1 (drop 2 (d_entries (dir_filp dir_abc)))) = [''c'']"
  "d_entries (dir_filp dir_abc) ! 2 = entry ''c'' 3"
  "map h_name (take 1 (d_entries (dir_filp dir_alpha_bravo))) = [''alpha'']"
  "sum_list (map (record_size plain_host 65) (take (2 - 1) (d_entries (dir_filp dir_abc)))) = 68"
  "sum_list (map (record_size plain_host 65)
      (take (1 - 1) (d_entries (dir_filp dir_alpha_bravo)))) = 0"
  by (simp_all add: example_entries entry_name example_sizes)








end
